theory Spec2Isabelle
  imports Main "HOL-Library.AList" "HOL-Library.Multiset"
begin

section \<open>Quantities and 64-bit arithmetic\<close>

text \<open>
  Go's \<open>int64\<close> is modelled as \<open>int\<close>; every addition the source performs on
  \<open>int64\<close> values is written with the two's-complement wrap-around \<open>wrap64\<close>.
\<close>

definition wrap64 :: "int \<Rightarrow> int" where
  "wrap64 x = (x + 2 ^ 63) mod 2 ^ 64 - 2 ^ 63"

definition int64 :: "int \<Rightarrow> bool" where
  "int64 x \<longleftrightarrow> - (2 ^ 63) \<le> x \<and> x < 2 ^ 63"

text \<open>
  Modelled from the spec: \<open>resource.Quantity\<close> (package \<open>pkg/api/resource\<close> is not
  part of the sources at hand).  The spec calls it an opaque magnitude with two
  projection views, the value (integral units) and the milli-value (thousandths), that
  can be constructed from either view.  The magnitude is kept in thousandths; the value
  view rounds away from zero to whole units; both views are delivered as \<open>int64\<close>.
  The scale tag (binary or decimal SI) only affects printing and is left out.
\<close>

record Quantity =
  milli :: int

definition roundUp1000 :: "int \<Rightarrow> int" where
  "roundUp1000 m = (if 0 \<le> m then (m + 999) div 1000 else - ((- m + 999) div 1000))"

definition Value :: "Quantity \<Rightarrow> int" where
  "Value q = wrap64 (roundUp1000 (milli q))"

definition MilliValue :: "Quantity \<Rightarrow> int" where
  "MilliValue q = wrap64 (milli q)"

definition NewQuantity :: "int \<Rightarrow> Quantity" where
  "NewQuantity v = \<lparr>milli = v * 1000\<rparr>"

definition NewMilliQuantity :: "int \<Rightarrow> Quantity" where
  "NewMilliQuantity v = \<lparr>milli = v\<rparr>"

text \<open>The zero value of the Go struct, which a lookup of an absent map key returns.\<close>

definition zeroQuantity :: Quantity where
  "zeroQuantity = \<lparr>milli = 0\<rparr>"

section \<open>API objects\<close>

text \<open>
  \<open>api.ResourceControllerGroupBy\<close>, \<open>api.ResourceControllerRuleType\<close> and
  \<open>api.ResourceName\<close> are string types in the source (\<open>observerFuncKey\<close> converts
  them with \<open>string(...)\<close>).  Modelled from the spec: the values of the named constants
  of package \<open>api\<close>, which is not part of the sources at hand.
\<close>

type_synonym ResourceName = string
type_synonym ResourceControllerGroupBy = string
type_synonym ResourceControllerRuleType = string

abbreviation ResourceControllerGroupByNamespace :: ResourceControllerGroupBy where
  "ResourceControllerGroupByNamespace \<equiv> ''Namespace''"

abbreviation ResourceControllerGroupByPod :: ResourceControllerGroupBy where
  "ResourceControllerGroupByPod \<equiv> ''Pod''"

abbreviation ResourceControllerGroupByContainer :: ResourceControllerGroupBy where
  "ResourceControllerGroupByContainer \<equiv> ''Container''"

abbreviation ResourceControllerGroupByReplicationController :: ResourceControllerGroupBy where
  "ResourceControllerGroupByReplicationController \<equiv> ''ReplicationController''"

abbreviation ResourceControllerRuleTypeMax :: ResourceControllerRuleType where
  "ResourceControllerRuleTypeMax \<equiv> ''Max''"

abbreviation ResourceControllerRuleTypeMin :: ResourceControllerRuleType where
  "ResourceControllerRuleTypeMin \<equiv> ''Min''"

text \<open>
  A Go map \<open>api.ResourceList\<close> holds its entries under distinct keys.  Its contents are
  an association list; \<open>map_of\<close> is the lookup, \<open>AList.update\<close> the assignment
  \<open>m[k] = v\<close>, and the order of the list stands for the order in which a \<open>range\<close>
  loop happens to visit the entries (Go leaves that order open; the statements below
  hold for every list and so for every order).

  A map value is a reference.  In the admission path the references matter, because
  \<open>copy\<close> duplicates the group structs but not the maps they point to: there a group
  holds \<open>Some a\<close>, the address of its map in the heap, or \<open>None\<close> for the nil map.
  The reconciler never writes to a map it shares, so there a group holds the contents of
  its map directly (\<open>None\<close> again being nil).  The group record is polymorphic in that
  component.  A slice field that the source tests against nil is an optional list.
\<close>

type_synonym ResourceList = "(ResourceName \<times> Quantity) list"
type_synonym heap = "nat \<Rightarrow> ResourceList"

record 'r ResourceControllerGroup =
  GroupBy :: ResourceControllerGroupBy
  RuleType :: ResourceControllerRuleType
  Resources :: 'r

record 'r ResourceControllerStatus =
  Allowed :: "'r ResourceControllerGroup list option"
  Allocated :: "'r ResourceControllerGroup list option"

record ObjectMeta =
  Name :: string
  Namespace :: string
  ResourceVersion :: string

record 'r ResourceController =
  ctlMeta :: ObjectMeta
  SpecAllowed :: "'r ResourceControllerGroup list"
  ctlStatus :: "'r ResourceControllerStatus"

record 'r ResourceObservation =
  obsMeta :: ObjectMeta
  obsStatus :: "'r ResourceControllerStatus"

record Container =
  containerName :: string
  CPU :: Quantity
  Memory :: Quantity

record Pod =
  podName :: string
  Containers :: "Container list"

record ReplicationController =
  rcName :: string
  Replicas :: int

datatype Object =
    NilObject
  | PodObject Pod
  | ServiceObject string
  | ReplicationControllerObject ReplicationController

record Attributes =
  GetOperation :: string
  GetKind :: string
  GetNamespace :: string
  GetObject :: Object

text \<open>
  Modelled from the spec: \<open>meta.NewAccessor().Name\<close>, the display name of an object,
  which fails on an object without metadata (here: the nil object).
\<close>

fun accessorName :: "Object \<Rightarrow> string option" where
  "accessorName NilObject = None"
| "accessorName (PodObject p) = Some (podName p)"
| "accessorName (ServiceObject n) = Some n"
| "accessorName (ReplicationControllerObject r) = Some (rcName r)"

text \<open>The slice behind an optional list; \<open>len\<close>, \<open>range\<close> and \<open>copy\<close> see a nil slice as empty.\<close>

fun items :: "'a list option \<Rightarrow> 'a list" where
  "items None = []"
| "items (Some xs) = xs"

section \<open>Errors and outcomes\<close>

text \<open>
  Every error the admission path builds is \<open>apierrors.NewForbidden(kind, name, cause)\<close>;
  the cause is one \<open>fmt.Errorf\<close> call of the source, kept here with its arguments.
\<close>

datatype cause =
    WaitingForObservation
  | LimitedTo Quantity string string
  | LimitCPU Quantity string
  | LimitMemory Quantity string
  | PodMemoryGreater Quantity Quantity
  | PodCPUGreater Quantity Quantity
  | PodMemoryLess Quantity Quantity
  | PodCPULess int int
  | ContainerMemoryGreater string string Quantity Quantity
  | ContainerCPUGreater string string Quantity Quantity
  | ContainerCPULess string string Quantity Quantity
  | ContainerMemoryLess string string Quantity int
  | ReplicasGreater int Quantity
  | ErrorEnforcing string string

datatype error =
    Forbidden string string cause
  | ClientError string

text \<open>
  A call either panics (a failed type assertion, a write to a nil map, a nil pointer) or
  returns.
\<close>

datatype 'a outcome = Panic | Ret 'a

primrec firstError :: "('a \<Rightarrow> error option) \<Rightarrow> 'a list \<Rightarrow> error option" where
  "firstError f [] = None"
| "firstError f (x # xs) = (case f x of Some e \<Rightarrow> Some e | None \<Rightarrow> firstError f xs)"

section \<open>Rule key and group model: \<open>AllowedAndAllocated\<close>\<close>

type_synonym 'r byGroup = "(ResourceControllerGroupBy \<times> (ResourceControllerRuleType \<times> 'r) list) list"

definition addGroup :: "'r byGroup \<Rightarrow> 'r ResourceControllerGroup \<Rightarrow> 'r byGroup" where
  "addGroup m g =
     (let inner = (case map_of m (GroupBy g) of None \<Rightarrow> [] | Some rules \<Rightarrow> rules)
      in AList.update (GroupBy g) (AList.update (RuleType g) (Resources g) inner) m)"

definition AllowedAndAllocated :: "'r ResourceControllerStatus \<Rightarrow> 'r byGroup \<times> 'r byGroup" where
  "AllowedAndAllocated status =
     (foldl addGroup [] (items (Allowed status)), foldl addGroup [] (items (Allocated status)))"

text \<open>
  Indexing a map of maps: a missing outer key yields the nil inner map, and reading a nil
  map yields the zero value.  \<open>rulesOf\<close> is \<open>byGroup[groupBy]\<close> (\<open>None\<close> is nil),
  \<open>resourcesOf\<close> is \<open>rules[ruleType]\<close> for a reference-valued entry.
\<close>

definition resourcesOf :: "(ResourceControllerRuleType \<times> 'a option) list option \<Rightarrow>
    ResourceControllerRuleType \<Rightarrow> 'a option" where
  "resourcesOf rules ruleType =
     (case rules of None \<Rightarrow> None
      | Some rs \<Rightarrow> (case map_of rs ruleType of None \<Rightarrow> None | Some r \<Rightarrow> r))"

text \<open>The entries of the map behind a reference, and the lookup \<open>v, ok := m[k]\<close>.\<close>

definition entries :: "heap \<Rightarrow> nat option \<Rightarrow> ResourceList" where
  "entries h r = (case r of None \<Rightarrow> [] | Some a \<Rightarrow> h a)"

definition lookupRef :: "heap \<Rightarrow> nat option \<Rightarrow> ResourceName \<Rightarrow> Quantity option" where
  "lookupRef h r name = map_of (entries h r) name"

section \<open>Admission functions\<close>

text \<open>
  An \<open>AdmissionFunc\<close> receives the request, the controller, the observation under
  construction and the heap of maps, and returns the heap, its \<open>dirty\<close> flag and its
  error.  The client argument of the Go signature is used by none of the four built-in
  functions and is left out.
\<close>

type_synonym admission = "heap \<times> bool \<times> error option"

type_synonym AdmissionFunc =
  "Attributes \<Rightarrow> nat option ResourceController \<Rightarrow> nat option ResourceObservation \<Rightarrow>
   heap \<Rightarrow> admission outcome"

subsection \<open>Namespace scope\<close>

definition kindsToProcess :: "(string \<times> bool) list" where
  "kindsToProcess = [(''pods'', True), (''services'', True), (''replicationControllers'', True)]"

definition kindToMaxKindResourceName :: "string \<Rightarrow> ResourceName" where
  "kindToMaxKindResourceName kind =
     (case map_of [(''pods'', ''Pods''), (''services'', ''Services''),
                   (''replicationControllers'', ''ReplicationControllers'')] kind of
        None \<Rightarrow> [] | Some n \<Rightarrow> n)"

text \<open>
  \<open>makeObservation\<close> assigns into the map that the status holds for the namespace
  scope and the Max rule; assigning into a nil map panics.
\<close>

definition makeObservation ::
  "heap \<Rightarrow> nat option ResourceControllerStatus \<Rightarrow> ResourceName \<Rightarrow> Quantity \<Rightarrow> heap outcome" where
  "makeObservation h status resourceName newQuantity =
     (let observedAllocatedByGroup = snd (AllowedAndAllocated status);
          observedAllocatedGroupRules = map_of observedAllocatedByGroup ResourceControllerGroupByNamespace;
          observedAllocatedGroupRulesMax = resourcesOf observedAllocatedGroupRules ResourceControllerRuleTypeMax
      in case observedAllocatedGroupRulesMax of
           None \<Rightarrow> Panic
         | Some m \<Rightarrow> Ret (h(m := AList.update resourceName newQuantity (h m))))"

text \<open>
  The blocks of the CREATE branch.  A block either returns early with an error (or
  panics), or falls through with the current heap and \<open>dirty\<close> flag; falling through is
  the result without an error, and \<open>andThen\<close> runs the next block after it.
\<close>

definition andThen :: "admission outcome \<Rightarrow> (heap \<Rightarrow> bool \<Rightarrow> admission outcome) \<Rightarrow> admission outcome" where
  "andThen r k =
     (case r of
        Panic \<Rightarrow> Panic
      | Ret (h, dirty, Some e) \<Rightarrow> Ret (h, dirty, Some e)
      | Ret (h, dirty, None) \<Rightarrow> k h dirty)"

definition kindCountBlock ::
  "Attributes \<Rightarrow> nat option ResourceController \<Rightarrow> nat option ResourceObservation \<Rightarrow> string \<Rightarrow>
   nat option \<Rightarrow> nat option \<Rightarrow> heap \<Rightarrow> bool \<Rightarrow> admission outcome" where
  "kindCountBlock a input observation name allowedGroupRulesMax allocatedGroupRulesMax h dirty =
     (if allowedGroupRulesMax \<noteq> None then
        (let resourceName = kindToMaxKindResourceName (GetKind a)
         in case lookupRef h allowedGroupRulesMax resourceName of
              None \<Rightarrow> Ret (h, dirty, None)
            | Some limit \<Rightarrow>
                (case lookupRef h allocatedGroupRulesMax resourceName of
                   None \<Rightarrow> Ret (h, dirty, Some (Forbidden (GetKind a) name WaitingForObservation))
                 | Some observed \<Rightarrow>
                     if Value observed \<ge> Value limit then
                       Ret (h, dirty, Some (Forbidden (GetKind a) name
                              (LimitedTo limit (GetKind a) (Namespace (ctlMeta input)))))
                     else
                       (case makeObservation h (obsStatus observation) resourceName
                               (NewQuantity (wrap64 (Value observed + 1))) of
                          Panic \<Rightarrow> Panic
                        | Ret h' \<Rightarrow> Ret (h', True, None))))
      else Ret (h, dirty, None))"

definition podCPUBlock ::
  "Attributes \<Rightarrow> nat option ResourceController \<Rightarrow> nat option ResourceObservation \<Rightarrow> string \<Rightarrow>
   nat option \<Rightarrow> Quantity option \<Rightarrow> int \<Rightarrow> heap \<Rightarrow> bool \<Rightarrow> admission outcome" where
  "podCPUBlock a input observation name allocatedGroupRulesMax cpu podCPU h dirty =
     (case cpu of
        None \<Rightarrow> Ret (h, dirty, None)
      | Some cpuLimit \<Rightarrow>
          (case lookupRef h allocatedGroupRulesMax ''CPU'' of
             None \<Rightarrow> Ret (h, dirty, Some (Forbidden (GetKind a) name WaitingForObservation))
           | Some cpuObservation \<Rightarrow>
               if wrap64 (MilliValue cpuObservation + podCPU) \<ge> MilliValue cpuLimit then
                 Ret (h, dirty, Some (Forbidden (GetKind a) name
                        (LimitCPU cpuLimit (Namespace (ctlMeta input)))))
               else
                 (case makeObservation h (obsStatus observation) ''CPU''
                         (NewMilliQuantity (wrap64 (MilliValue cpuObservation + podCPU))) of
                    Panic \<Rightarrow> Panic
                  | Ret h' \<Rightarrow> Ret (h', True, None))))"

definition podMemoryBlock ::
  "Attributes \<Rightarrow> nat option ResourceController \<Rightarrow> nat option ResourceObservation \<Rightarrow> string \<Rightarrow>
   nat option \<Rightarrow> Quantity option \<Rightarrow> int \<Rightarrow> heap \<Rightarrow> bool \<Rightarrow> admission outcome" where
  "podMemoryBlock a input observation name allocatedGroupRulesMax mem podMem h dirty =
     (case mem of
        None \<Rightarrow> Ret (h, dirty, None)
      | Some memLimit \<Rightarrow>
          (case lookupRef h allocatedGroupRulesMax ''Memory'' of
             None \<Rightarrow> Ret (h, dirty, Some (Forbidden (GetKind a) name WaitingForObservation))
           | Some memObservation \<Rightarrow>
               if wrap64 (Value memObservation + podMem) \<ge> Value memLimit then
                 Ret (h, dirty, Some (Forbidden (GetKind a) name
                        (LimitMemory memLimit (Namespace (ctlMeta input)))))
               else
                 (case makeObservation h (obsStatus observation) ''Memory''
                         (NewQuantity (wrap64 (Value memObservation + podMem))) of
                    Panic \<Rightarrow> Panic
                  | Ret h' \<Rightarrow> Ret (h', True, None))))"

text \<open>
  The \<open>pods\<close> block: both limits are read and the object is asserted to be a pod
  before anything else happens.
\<close>

definition podUsageBlock ::
  "Attributes \<Rightarrow> nat option ResourceController \<Rightarrow> nat option ResourceObservation \<Rightarrow> string \<Rightarrow>
   nat option \<Rightarrow> nat option \<Rightarrow> heap \<Rightarrow> bool \<Rightarrow> admission outcome" where
  "podUsageBlock a input observation name allowedGroupRulesMax allocatedGroupRulesMax h dirty =
     (if GetKind a = ''pods'' then
        (let cpu = lookupRef h allowedGroupRulesMax ''CPU'';
             mem = lookupRef h allowedGroupRulesMax ''Memory''
         in case GetObject a of
              PodObject pod \<Rightarrow>
                if cpu \<noteq> None \<or> mem \<noteq> None then
                  (let podCPU = foldl (\<lambda>s c. wrap64 (s + MilliValue (CPU c))) 0 (Containers pod);
                       podMem = foldl (\<lambda>s c. wrap64 (s + Value (Memory c))) 0 (Containers pod)
                   in andThen
                        (podCPUBlock a input observation name allocatedGroupRulesMax cpu podCPU h dirty)
                        (podMemoryBlock a input observation name allocatedGroupRulesMax mem podMem))
                else Ret (h, dirty, None)
            | _ \<Rightarrow> Panic)
      else Ret (h, dirty, None))"

definition namespace_admissionFunc :: AdmissionFunc where
  "namespace_admissionFunc a input observation h =
     (let groupBy = ResourceControllerGroupByNamespace; dirty = False
      in if GetOperation a = ''DELETE'' then Ret (h, dirty, None)
         else if map_of kindsToProcess (GetKind a) = None then Ret (h, dirty, None)
         else
           (let (allowedByGroup, allocatedByGroup) = AllowedAndAllocated (ctlStatus input)
            in case map_of allowedByGroup groupBy of
                 None \<Rightarrow> Ret (h, dirty, None)
               | Some allowedGroupRules \<Rightarrow>
                   (let allocatedGroupRules = map_of allocatedByGroup groupBy;
                        name = (case accessorName (GetObject a) of None \<Rightarrow> ''Unknown'' | Some n \<Rightarrow> n)
                    in if GetOperation a = ''CREATE'' then
                         (let allowedGroupRulesMax =
                                resourcesOf (Some allowedGroupRules) ResourceControllerRuleTypeMax;
                              allocatedGroupRulesMax =
                                resourcesOf allocatedGroupRules ResourceControllerRuleTypeMax
                          in andThen
                               (kindCountBlock a input observation name
                                  allowedGroupRulesMax allocatedGroupRulesMax h dirty)
                               (podUsageBlock a input observation name
                                  allowedGroupRulesMax allocatedGroupRulesMax))
                       else Ret (h, dirty, None))))"

subsection \<open>Pod scope\<close>

definition pod_checkRule ::
  "Attributes \<Rightarrow> Pod \<Rightarrow> int \<Rightarrow> Quantity \<Rightarrow> Quantity \<Rightarrow> ResourceControllerRuleType \<Rightarrow>
   ResourceName \<times> Quantity \<Rightarrow> error option" where
  "pod_checkRule a pod memoryUsage memoryQuantity cpuQuantity ruleType entry =
     (let name = fst entry; quantity = snd entry
      in if ruleType = ResourceControllerRuleTypeMax then
           (if name = ''Memory'' then
              (if memoryUsage > Value quantity then
                 Some (Forbidden (GetKind a) (podName pod) (PodMemoryGreater memoryQuantity quantity))
               else None)
            else if name = ''CPU'' then
              (if MilliValue cpuQuantity > MilliValue quantity then
                 Some (Forbidden (GetKind a) (podName pod) (PodCPUGreater cpuQuantity quantity))
               else None)
            else None)
         else if ruleType = ResourceControllerRuleTypeMin then
           (if name = ''Memory'' then
              (if memoryUsage < Value quantity then
                 Some (Forbidden (GetKind a) (podName pod) (PodMemoryLess memoryQuantity quantity))
               else None)
            else if name = ''CPU'' then
              (if MilliValue cpuQuantity < MilliValue quantity then
                 Some (Forbidden (GetKind a) (podName pod)
                         (PodCPULess (MilliValue cpuQuantity) (MilliValue quantity)))
               else None)
            else None)
         else None)"

definition pod_admissionFunc :: AdmissionFunc where
  "pod_admissionFunc a input observation h =
     (let dirty = False
      in if GetOperation a = ''DELETE'' then Ret (h, dirty, None)
         else if GetKind a \<noteq> ''pods'' then Ret (h, dirty, None)
         else
           (case map_of (fst (AllowedAndAllocated (ctlStatus input))) ResourceControllerGroupByPod of
              None \<Rightarrow> Ret (h, dirty, None)
            | Some groupRules \<Rightarrow>
                (case GetObject a of
                   PodObject pod \<Rightarrow>
                     (let memoryUsage = foldl (\<lambda>s c. wrap64 (s + Value (Memory c))) 0 (Containers pod);
                          cpuUsage = foldl (\<lambda>s c. wrap64 (s + MilliValue (CPU c))) 0 (Containers pod);
                          memoryQuantity = NewQuantity memoryUsage;
                          cpuQuantity = NewMilliQuantity cpuUsage
                      in Ret (h, dirty,
                           firstError (\<lambda>rule.
                               firstError (pod_checkRule a pod memoryUsage memoryQuantity cpuQuantity (fst rule))
                                 (entries h (snd rule)))
                             groupRules))
                 | _ \<Rightarrow> Panic)))"

subsection \<open>Container scope\<close>

definition container_checkRule ::
  "Attributes \<Rightarrow> Pod \<Rightarrow> ResourceControllerRuleType \<Rightarrow> ResourceName \<Rightarrow> Quantity \<Rightarrow>
   Container \<Rightarrow> error option" where
  "container_checkRule a pod ruleType name quantity container =
     (if ruleType = ResourceControllerRuleTypeMax then
        (if name = ''Memory'' then
           (if Value (Memory container) > Value quantity then
              Some (Forbidden (GetKind a) (podName pod)
                      (ContainerMemoryGreater (GetOperation a) (containerName container)
                         (Memory container) quantity))
            else None)
         else if name = ''CPU'' then
           (if MilliValue (CPU container) > MilliValue quantity then
              Some (Forbidden (GetKind a) (podName pod)
                      (ContainerCPUGreater (GetOperation a) (containerName container)
                         (CPU container) quantity))
            else None)
         else None)
      else if ruleType = ResourceControllerRuleTypeMin then
        (if name = ''CPU'' then
           (if MilliValue (CPU container) < MilliValue quantity then
              Some (Forbidden (GetKind a) (podName pod)
                      (ContainerCPULess (GetOperation a) (containerName container)
                         (Memory container) quantity))
            else None)
         else if name = ''Memory'' then
           (if Value (Memory container) < Value quantity then
              Some (Forbidden (GetKind a) (podName pod)
                      (ContainerMemoryLess (GetOperation a) (containerName container)
                         (Memory container) (Value quantity)))
            else None)
         else None)
      else None)"

definition container_admissionFunc :: AdmissionFunc where
  "container_admissionFunc a input observation h =
     (if GetOperation a = ''DELETE'' then Ret (h, False, None)
      else if GetKind a \<noteq> ''pods'' then Ret (h, False, None)
      else
        (case map_of (fst (AllowedAndAllocated (ctlStatus input))) ResourceControllerGroupByContainer of
           None \<Rightarrow> Ret (h, False, None)
         | Some groupRules \<Rightarrow>
             (case GetObject a of
                PodObject pod \<Rightarrow>
                  Ret (h, False,
                    firstError (\<lambda>rule.
                        firstError (\<lambda>entry.
                            firstError (container_checkRule a pod (fst rule) (fst entry) (snd entry))
                              (Containers pod))
                          (entries h (snd rule)))
                      groupRules)
              | _ \<Rightarrow> Panic)))"

subsection \<open>Replication-controller scope\<close>

definition replicationcontroller_checkRule ::
  "Attributes \<Rightarrow> ReplicationController \<Rightarrow> int \<Rightarrow> ResourceControllerRuleType \<Rightarrow>
   ResourceName \<times> Quantity \<Rightarrow> error option" where
  "replicationcontroller_checkRule a replicationController replicas ruleType entry =
     (let name = fst entry; quantity = snd entry
      in if ruleType = ResourceControllerRuleTypeMax then
           (if name = ''Replicas'' then
              (if replicas > Value quantity then
                 Some (Forbidden (GetKind a) (rcName replicationController)
                         (ReplicasGreater replicas quantity))
               else None)
            else None)
         else None)"

definition replicationcontroller_admissionFunc :: AdmissionFunc where
  "replicationcontroller_admissionFunc a input observation h =
     (if GetOperation a = ''DELETE'' then Ret (h, False, None)
      else if GetKind a \<noteq> ''replicationControllers'' then Ret (h, False, None)
      else
        (case map_of (fst (AllowedAndAllocated (ctlStatus input)))
                ResourceControllerGroupByReplicationController of
           None \<Rightarrow> Ret (h, False, None)
         | Some groupRules \<Rightarrow>
             (case GetObject a of
                ReplicationControllerObject replicationController \<Rightarrow>
                  (let replicas = Replicas replicationController
                   in Ret (h, False,
                        firstError (\<lambda>rule.
                            firstError
                              (replicationcontroller_checkRule a replicationController replicas (fst rule))
                              (entries h (snd rule)))
                          groupRules))
              | _ \<Rightarrow> Panic)))"

section \<open>Admission controller: \<open>Admit\<close>\<close>

text \<open>
  The store client.  A listing returns a pointer and an error, as in Go.  What
  \<open>ResourceObservations(ns).Create\<close> receives is the observation as it is posted:
  every map read out of the heap at the moment of the call.
\<close>

record 'r Client =
  ResourceControllersList :: "string \<Rightarrow> 'r ResourceController list option \<times> error option"
  ResourceObservationsCreate :: "string \<Rightarrow> ResourceList option ResourceObservation \<Rightarrow> error option"
  PodsList :: "string \<Rightarrow> Pod list option \<times> error option"
  ServicesList :: "string \<Rightarrow> string list option \<times> error option"
  ReplicationControllersList :: "string \<Rightarrow> ReplicationController list option \<times> error option"

definition derefGroup :: "heap \<Rightarrow> nat option ResourceControllerGroup \<Rightarrow> ResourceList option ResourceControllerGroup" where
  "derefGroup h g = \<lparr>GroupBy = GroupBy g, RuleType = RuleType g, Resources = map_option h (Resources g)\<rparr>"

definition derefStatus :: "heap \<Rightarrow> nat option ResourceControllerStatus \<Rightarrow> ResourceList option ResourceControllerStatus" where
  "derefStatus h s =
     \<lparr>Allowed = map_option (map (derefGroup h)) (Allowed s),
      Allocated = map_option (map (derefGroup h)) (Allocated s)\<rparr>"

definition derefObservation :: "heap \<Rightarrow> nat option ResourceObservation \<Rightarrow> ResourceList option ResourceObservation" where
  "derefObservation h obs = \<lparr>obsMeta = obsMeta obs, obsStatus = derefStatus h (obsStatus obs)\<rparr>"

text \<open>
  \<open>make([]api.ResourceControllerGroup, n, n)\<close> is \<open>n\<close> zero groups; \<open>copy(dst, src)\<close>
  overwrites the first \<open>min (len dst) (len src)\<close> elements of \<open>dst\<close>.
\<close>

definition zeroGroup :: "'a option ResourceControllerGroup" where
  "zeroGroup = \<lparr>GroupBy = [], RuleType = [], Resources = None\<rparr>"

definition copySlice :: "'a list \<Rightarrow> 'a list \<Rightarrow> 'a list" where
  "copySlice dst src = take (length dst) src @ drop (length src) dst"

text \<open>The observation that \<open>Admit\<close> constructs for a controller before it invokes the functions.\<close>

definition newObservation :: "'a option ResourceController \<Rightarrow> 'a option ResourceObservation" where
  "newObservation controller =
     (let n = length (items (Allowed (ctlStatus controller)))
      in \<lparr>obsMeta = \<lparr>Name = Name (ctlMeta controller),
                     Namespace = Namespace (ctlMeta controller),
                     ResourceVersion = ResourceVersion (ctlMeta controller)\<rparr>,
          obsStatus =
            \<lparr>Allowed = Some (copySlice (replicate n zeroGroup) (items (Allowed (ctlStatus controller)))),
             Allocated = Some (copySlice (replicate n zeroGroup) (items (Allocated (ctlStatus controller))))\<rparr>\<rparr>)"

fun invokeAdmissionFuncs ::
  "AdmissionFunc list \<Rightarrow> Attributes \<Rightarrow> nat option ResourceController \<Rightarrow>
   nat option ResourceObservation \<Rightarrow> heap \<Rightarrow> bool \<Rightarrow> admission outcome" where
  "invokeAdmissionFuncs [] a controller resourceObservation h dirty = Ret (h, dirty, None)"
| "invokeAdmissionFuncs (admissionFunc # rest) a controller resourceObservation h dirty =
     (case admissionFunc a controller resourceObservation h of
        Panic \<Rightarrow> Panic
      | Ret (h', funcDirty, Some err) \<Rightarrow> Ret (h', dirty, Some err)
      | Ret (h', funcDirty, None) \<Rightarrow>
          invokeAdmissionFuncs rest a controller resourceObservation h' (dirty \<or> funcDirty))"

text \<open>
  The result of \<open>Admit\<close> and of its loop body: the heap, the observations handed to
  \<open>ResourceObservations.Create\<close> in order, and the error returned.
\<close>

type_synonym admitted = "heap \<times> ResourceList option ResourceObservation list \<times> error option"

definition admitController ::
  "nat option Client \<Rightarrow> AdmissionFunc list \<Rightarrow> Attributes \<Rightarrow> string \<Rightarrow>
   nat option ResourceController \<Rightarrow> heap \<Rightarrow> admitted outcome" where
  "admitController client admissionFuncs a name controller h =
     (let resourceObservation = newObservation controller
      in case invokeAdmissionFuncs admissionFuncs a controller resourceObservation h False of
           Panic \<Rightarrow> Panic
         | Ret (h', dirty, Some err) \<Rightarrow> Ret (h', [], Some err)
         | Ret (h', dirty, None) \<Rightarrow>
             if dirty then
               (let posted = derefObservation h' resourceObservation
                in case ResourceObservationsCreate client (Namespace (obsMeta resourceObservation)) posted of
                     Some err \<Rightarrow>
                       Ret (h', [posted],
                            Some (Forbidden (GetKind a) name (ErrorEnforcing (GetOperation a) (GetKind a))))
                   | None \<Rightarrow> Ret (h', [posted], None))
             else Ret (h', [], None))"

fun admitControllers ::
  "nat option Client \<Rightarrow> AdmissionFunc list \<Rightarrow> Attributes \<Rightarrow> string \<Rightarrow>
   nat option ResourceController list \<Rightarrow> heap \<Rightarrow> admitted outcome" where
  "admitControllers client admissionFuncs a name [] h = Ret (h, [], None)"
| "admitControllers client admissionFuncs a name (controller # rest) h =
     (case admitController client admissionFuncs a name controller h of
        Panic \<Rightarrow> Panic
      | Ret (h', posted, Some err) \<Rightarrow> Ret (h', posted, Some err)
      | Ret (h', posted, None) \<Rightarrow>
          (case admitControllers client admissionFuncs a name rest h' of
             Panic \<Rightarrow> Panic
           | Ret (h'', posted', err) \<Rightarrow> Ret (h'', posted @ posted', err)))"

definition Admit ::
  "nat option Client \<Rightarrow> AdmissionFunc list \<Rightarrow> Attributes \<Rightarrow> heap \<Rightarrow> admitted outcome" where
  "Admit client admissionFuncs a h =
     (let name = (case GetObject a of
                    NilObject \<Rightarrow> ''Unknown''
                  | obj \<Rightarrow> (case accessorName obj of None \<Rightarrow> [] | Some n \<Rightarrow> n))
      in case ResourceControllersList client (GetNamespace a) of
           (_, Some err) \<Rightarrow>
             Ret (h, [], Some (Forbidden (GetKind a) name (ErrorEnforcing (GetOperation a) (GetKind a))))
         | (None, None) \<Rightarrow> Panic
         | (Some list, None) \<Rightarrow> admitControllers client admissionFuncs a name list h)"

section \<open>Admission function registry\<close>

text \<open>
  \<open>plugins\<close> is a Go map from plug-in name to function.  \<open>GetAdmissionFuncs\<close> ranges
  over that map, and Go leaves the order of such a loop open; the order in which the
  loop visits the names is therefore an argument of the model, and \<open>rangeOrder\<close> says
  which orders can occur: every name of the map exactly once.  \<open>glog.Fatalf\<close> ends the
  process: a fatal registration has no resulting registry.
\<close>

type_synonym 'f plugins = "(string \<times> 'f) list"

definition RegisterAdmissionFunc :: "string \<Rightarrow> 'f \<Rightarrow> 'f plugins \<Rightarrow> 'f plugins option" where
  "RegisterAdmissionFunc name admissionFunc plugins =
     (if map_of plugins name \<noteq> None then None
      else Some (AList.update name admissionFunc plugins))"

fun registerAll :: "(string \<times> 'f) list \<Rightarrow> 'f plugins \<Rightarrow> 'f plugins option" where
  "registerAll [] plugins = Some plugins"
| "registerAll ((name, admissionFunc) # rest) plugins =
     (case RegisterAdmissionFunc name admissionFunc plugins of
        None \<Rightarrow> None
      | Some plugins' \<Rightarrow> registerAll rest plugins')"

definition rangeOrder :: "'f plugins \<Rightarrow> string list \<Rightarrow> bool" where
  "rangeOrder plugins order \<longleftrightarrow> distinct order \<and> set order = set (map fst plugins)"

definition GetAdmissionFuncs :: "string list \<Rightarrow> 'f plugins \<Rightarrow> 'f list" where
  "GetAdmissionFuncs order plugins = List.map_filter (map_of plugins) order"

section \<open>Observers\<close>

text \<open>
  The \<open>cache.Store\<close> handed to an observer function holds at most one listing under
  each of the keys \<open>pods\<close>, \<open>services\<close> and \<open>replicationControllers\<close>; a field is
  \<open>None\<close> while its key is absent.
\<close>

record Store =
  storePods :: "Pod list option option"
  storeServices :: "string list option option"
  storeReplicationControllers :: "ReplicationController list option option"

definition NewStore :: Store where
  "NewStore = \<lparr>storePods = None, storeServices = None, storeReplicationControllers = None\<rparr>"

type_synonym ObserverFunc = "Store \<Rightarrow> string \<Rightarrow> (Store \<times> (error + Quantity)) outcome"

record ObserverFuncBinding =
  bindingGroupBy :: ResourceControllerGroupBy
  bindingRuleType :: ResourceControllerRuleType
  bindingResourceName :: ResourceName
  bindingFunc :: ObserverFunc

definition observer_pods :: "'r Client \<Rightarrow> Store \<Rightarrow> string \<Rightarrow> Store \<times> Pod list option \<times> error option" where
  "observer_pods client store namespace =
     (case storePods store of
        Some listing \<Rightarrow> (store, listing, None)
      | None \<Rightarrow>
          (let (listing, err) = PodsList client namespace
           in (store\<lparr>storePods := Some listing\<rparr>, listing, err)))"

definition observer_services :: "'r Client \<Rightarrow> Store \<Rightarrow> string \<Rightarrow> Store \<times> string list option \<times> error option" where
  "observer_services client store namespace =
     (case storeServices store of
        Some listing \<Rightarrow> (store, listing, None)
      | None \<Rightarrow>
          (let (listing, err) = ServicesList client namespace
           in (store\<lparr>storeServices := Some listing\<rparr>, listing, err)))"

definition observer_replicationControllers ::
  "'r Client \<Rightarrow> Store \<Rightarrow> string \<Rightarrow> Store \<times> ReplicationController list option \<times> error option" where
  "observer_replicationControllers client store namespace =
     (case storeReplicationControllers store of
        Some listing \<Rightarrow> (store, listing, None)
      | None \<Rightarrow>
          (let (listing, err) = ReplicationControllersList client namespace
           in (store\<lparr>storeReplicationControllers := Some listing\<rparr>, listing, err)))"

text \<open>
  Every observer function starts the same way: fetch the listing, return the error if
  there is one, otherwise compute a quantity from \<open>items.Items\<close> (a nil pointer
  without an error panics there).
\<close>

definition observe :: "Store \<times> 'a list option \<times> error option \<Rightarrow> ('a list \<Rightarrow> Quantity) \<Rightarrow>
    (Store \<times> (error + Quantity)) outcome" where
  "observe fetched compute =
     (case fetched of
        (store, _, Some err) \<Rightarrow> Ret (store, Inl err)
      | (store, None, None) \<Rightarrow> Panic
      | (store, Some listing, None) \<Rightarrow> Ret (store, Inr (compute listing)))"

text \<open>The loops of the observer functions, over a view (CPU milli-value or memory value) of a container.\<close>

definition sumContainers :: "(Container \<Rightarrow> int) \<Rightarrow> Container list \<Rightarrow> int \<Rightarrow> int" where
  "sumContainers view containers val = foldl (\<lambda>v container. wrap64 (v + view container)) val containers"

definition namespaceSum :: "(Container \<Rightarrow> int) \<Rightarrow> Pod list \<Rightarrow> int" where
  "namespaceSum view its = foldl (\<lambda>val item. sumContainers view (Containers item) val) 0 its"

definition containerMax :: "(Container \<Rightarrow> int) \<Rightarrow> Pod list \<Rightarrow> int" where
  "containerMax view its =
     foldl (\<lambda>val item. foldl (\<lambda>v container. if view container > v then view container else v)
                          val (Containers item)) 0 its"

fun containerMinInner :: "(Container \<Rightarrow> int) \<Rightarrow> nat \<Rightarrow> nat \<Rightarrow> Container list \<Rightarrow> int \<Rightarrow> int" where
  "containerMinInner view i j [] val = val"
| "containerMinInner view i j (container # rest) val =
     containerMinInner view i (Suc j) rest
       (if view container < val \<or> (i = 0 \<and> j = 0) then view container else val)"

fun containerMinOuter :: "(Container \<Rightarrow> int) \<Rightarrow> nat \<Rightarrow> Pod list \<Rightarrow> int \<Rightarrow> int" where
  "containerMinOuter view i [] val = val"
| "containerMinOuter view i (item # rest) val =
     containerMinOuter view (Suc i) rest (containerMinInner view i 0 (Containers item) val)"

definition containerMin :: "(Container \<Rightarrow> int) \<Rightarrow> Pod list \<Rightarrow> int" where
  "containerMin view its = containerMinOuter view 0 its 0"

definition podMax :: "(Container \<Rightarrow> int) \<Rightarrow> Pod list \<Rightarrow> int" where
  "podMax view its =
     foldl (\<lambda>val item. let internalVal = sumContainers view (Containers item) 0
                        in if internalVal > val then internalVal else val) 0 its"

fun podMinLoop :: "(Container \<Rightarrow> int) \<Rightarrow> nat \<Rightarrow> Pod list \<Rightarrow> int \<Rightarrow> int" where
  "podMinLoop view index [] val = val"
| "podMinLoop view index (item # rest) val =
     (let internalVal = sumContainers view (Containers item) 0
      in podMinLoop view (Suc index) rest
           (if index = 0 \<or> internalVal < val then internalVal else val))"

definition podMin :: "(Container \<Rightarrow> int) \<Rightarrow> Pod list \<Rightarrow> int" where
  "podMin view its = podMinLoop view 0 its 0"

definition replicasMax :: "ReplicationController list \<Rightarrow> int" where
  "replicasMax its =
     foldl (\<lambda>val item. let internalVal = Replicas item
                        in if internalVal > val then internalVal else val) 0 its"

definition cpuView :: "Container \<Rightarrow> int" where
  "cpuView container = MilliValue (CPU container)"

definition memoryView :: "Container \<Rightarrow> int" where
  "memoryView container = Value (Memory container)"

definition namespaceObserverFuncBindings :: "'r Client \<Rightarrow> ObserverFuncBinding list" where
  "namespaceObserverFuncBindings client =
     (let groupBy = ResourceControllerGroupByNamespace in
      [\<lparr>bindingGroupBy = groupBy, bindingRuleType = ResourceControllerRuleTypeMax,
        bindingResourceName = ''CPU'',
        bindingFunc = (\<lambda>store namespace. observe (observer_pods client store namespace)
                         (\<lambda>its. NewMilliQuantity (namespaceSum cpuView its)))\<rparr>,
       \<lparr>bindingGroupBy = groupBy, bindingRuleType = ResourceControllerRuleTypeMax,
        bindingResourceName = ''Memory'',
        bindingFunc = (\<lambda>store namespace. observe (observer_pods client store namespace)
                         (\<lambda>its. NewQuantity (namespaceSum memoryView its)))\<rparr>,
       \<lparr>bindingGroupBy = groupBy, bindingRuleType = ResourceControllerRuleTypeMax,
        bindingResourceName = ''Pods'',
        bindingFunc = (\<lambda>store namespace. observe (observer_pods client store namespace)
                         (\<lambda>its. NewQuantity (int (length its))))\<rparr>,
       \<lparr>bindingGroupBy = groupBy, bindingRuleType = ResourceControllerRuleTypeMax,
        bindingResourceName = ''Services'',
        bindingFunc = (\<lambda>store namespace. observe (observer_services client store namespace)
                         (\<lambda>its. NewQuantity (int (length its))))\<rparr>,
       \<lparr>bindingGroupBy = groupBy, bindingRuleType = ResourceControllerRuleTypeMax,
        bindingResourceName = ''ReplicationControllers'',
        bindingFunc = (\<lambda>store namespace. observe (observer_replicationControllers client store namespace)
                         (\<lambda>its. NewQuantity (int (length its))))\<rparr>])"

definition containerObserverFuncBindings :: "'r Client \<Rightarrow> ObserverFuncBinding list" where
  "containerObserverFuncBindings client =
     (let groupBy = ResourceControllerGroupByContainer in
      [\<lparr>bindingGroupBy = groupBy, bindingRuleType = ResourceControllerRuleTypeMax,
        bindingResourceName = ''Memory'',
        bindingFunc = (\<lambda>store namespace. observe (observer_pods client store namespace)
                         (\<lambda>its. NewQuantity (containerMax memoryView its)))\<rparr>,
       \<lparr>bindingGroupBy = groupBy, bindingRuleType = ResourceControllerRuleTypeMin,
        bindingResourceName = ''Memory'',
        bindingFunc = (\<lambda>store namespace. observe (observer_pods client store namespace)
                         (\<lambda>its. NewQuantity (containerMin memoryView its)))\<rparr>,
       \<lparr>bindingGroupBy = groupBy, bindingRuleType = ResourceControllerRuleTypeMax,
        bindingResourceName = ''CPU'',
        bindingFunc = (\<lambda>store namespace. observe (observer_pods client store namespace)
                         (\<lambda>its. NewMilliQuantity (containerMax cpuView its)))\<rparr>,
       \<lparr>bindingGroupBy = groupBy, bindingRuleType = ResourceControllerRuleTypeMin,
        bindingResourceName = ''CPU'',
        bindingFunc = (\<lambda>store namespace. observe (observer_pods client store namespace)
                         (\<lambda>its. NewMilliQuantity (containerMin cpuView its)))\<rparr>])"

definition podObserverFuncBindings :: "'r Client \<Rightarrow> ObserverFuncBinding list" where
  "podObserverFuncBindings client =
     (let groupBy = ResourceControllerGroupByPod in
      [\<lparr>bindingGroupBy = groupBy, bindingRuleType = ResourceControllerRuleTypeMax,
        bindingResourceName = ''CPU'',
        bindingFunc = (\<lambda>store namespace. observe (observer_pods client store namespace)
                         (\<lambda>its. NewMilliQuantity (podMax cpuView its)))\<rparr>,
       \<lparr>bindingGroupBy = groupBy, bindingRuleType = ResourceControllerRuleTypeMin,
        bindingResourceName = ''CPU'',
        bindingFunc = (\<lambda>store namespace. observe (observer_pods client store namespace)
                         (\<lambda>its. NewMilliQuantity (podMin cpuView its)))\<rparr>,
       \<lparr>bindingGroupBy = groupBy, bindingRuleType = ResourceControllerRuleTypeMax,
        bindingResourceName = ''Memory'',
        bindingFunc = (\<lambda>store namespace. observe (observer_pods client store namespace)
                         (\<lambda>its. NewQuantity (podMax memoryView its)))\<rparr>,
       \<lparr>bindingGroupBy = groupBy, bindingRuleType = ResourceControllerRuleTypeMin,
        bindingResourceName = ''Memory'',
        bindingFunc = (\<lambda>store namespace. observe (observer_pods client store namespace)
                         (\<lambda>its. NewQuantity (podMin memoryView its)))\<rparr>])"

definition replicationControllerObserverFuncBindings :: "'r Client \<Rightarrow> ObserverFuncBinding list" where
  "replicationControllerObserverFuncBindings client =
     [\<lparr>bindingGroupBy = ResourceControllerGroupByReplicationController,
       bindingRuleType = ResourceControllerRuleTypeMax,
       bindingResourceName = ''Replicas'',
       bindingFunc = (\<lambda>store namespace. observe (observer_replicationControllers client store namespace)
                        (\<lambda>its. NewQuantity (replicasMax its)))\<rparr>]"

definition ObserverFuncBindings :: "'r Client \<Rightarrow> ObserverFuncBinding list" where
  "ObserverFuncBindings client =
     namespaceObserverFuncBindings client @ containerObserverFuncBindings client @
     podObserverFuncBindings client @ replicationControllerObserverFuncBindings client"

section \<open>Observation reconciler\<close>

text \<open>
  In the reconciler a group holds the contents of its map (see above).  What a sync
  returns is the list of observations it handed to \<open>ResourceObservations.Create\<close> and
  its error.  The goroutines that \<open>synchronize\<close> starts, one per controller, interact
  only through the client and the log; the model runs them in the order of the listing.
\<close>

type_synonym synced = "ResourceList option ResourceObservation list \<times> error option"

datatype logEntry = SynchronizationError error | ErrorSynchronizing error

record ResourceManager =
  kubeClient :: "ResourceList option Client"
  syncHandler :: "ResourceList option ResourceController \<Rightarrow> synced outcome"
  observerFuncs :: "string \<Rightarrow> ObserverFunc option"

definition observerFuncKey ::
  "ResourceControllerGroupBy \<Rightarrow> ResourceControllerRuleType \<Rightarrow> ResourceName \<Rightarrow> string" where
  "observerFuncKey groupBy ruleType name = groupBy @ ''.'' @ ruleType @ ''.'' @ name"

text \<open>\<open>prevAllocatedStatus[groupBy][ruleType][name]\<close>: the zero quantity where a key is absent.\<close>

definition quantityAt ::
  "ResourceList option byGroup \<Rightarrow> ResourceControllerGroupBy \<Rightarrow> ResourceControllerRuleType \<Rightarrow>
   ResourceName \<Rightarrow> Quantity" where
  "quantityAt byGroup groupBy ruleType name =
     (case resourcesOf (map_of byGroup groupBy) ruleType of
        None \<Rightarrow> zeroQuantity
      | Some resources \<Rightarrow> (case map_of resources name of None \<Rightarrow> zeroQuantity | Some q \<Rightarrow> q))"

text \<open>
  The inner loop of \<open>syncResourceController\<close> over the resource names of one group; it
  carries the store, the map \<open>latestObservation.Resources\<close> and \<open>dirty\<close>.
\<close>

fun observeResources ::
  "(string \<Rightarrow> ObserverFunc option) \<Rightarrow> string \<Rightarrow> ResourceList option byGroup \<Rightarrow>
   ResourceControllerGroupBy \<Rightarrow> ResourceControllerRuleType \<Rightarrow> ResourceName list \<Rightarrow>
   Store \<Rightarrow> ResourceList \<Rightarrow> bool \<Rightarrow> (ResourceList \<times> bool \<times> error option) outcome" where
  "observeResources funcs namespace prevAllocatedStatus groupBy ruleType [] store latest dirty =
     Ret (latest, dirty, None)"
| "observeResources funcs namespace prevAllocatedStatus groupBy ruleType (name # names) store latest dirty =
     (case funcs (observerFuncKey groupBy ruleType name) of
        None \<Rightarrow>
          observeResources funcs namespace prevAllocatedStatus groupBy ruleType names store latest dirty
      | Some observerFunc \<Rightarrow>
          (case observerFunc store namespace of
             Panic \<Rightarrow> Panic
           | Ret (store', Inl err) \<Rightarrow> Ret (latest, dirty, Some err)
           | Ret (store', Inr quantity) \<Rightarrow>
               (let prevQuantity = quantityAt prevAllocatedStatus groupBy ruleType name
                in observeResources funcs namespace prevAllocatedStatus groupBy ruleType names store'
                     (AList.update name quantity latest)
                     (dirty \<or> Value quantity \<noteq> Value prevQuantity))))"

text \<open>
  The outer loop over the groups of \<open>resourceObservation.Status.Allowed\<close>.  Each round
  starts with a new store and a new, empty map, and assigns its group to
  \<open>Status.Allocated[index]\<close>; the rounds run in index order, so the slice is built here
  from the front.
\<close>

fun observeGroups ::
  "(string \<Rightarrow> ObserverFunc option) \<Rightarrow> string \<Rightarrow> ResourceList option byGroup \<Rightarrow>
   ResourceList option ResourceControllerGroup list \<Rightarrow> bool \<Rightarrow>
   (ResourceList option ResourceControllerGroup list \<times> bool \<times> error option) outcome" where
  "observeGroups funcs namespace prevAllocatedStatus [] dirty = Ret ([], dirty, None)"
| "observeGroups funcs namespace prevAllocatedStatus (grp # grps) dirty =
     (case observeResources funcs namespace prevAllocatedStatus (GroupBy grp) (RuleType grp)
             (map fst (case Resources grp of None \<Rightarrow> [] | Some resources \<Rightarrow> resources))
             NewStore [] dirty of
        Panic \<Rightarrow> Panic
      | Ret (latest, dirty', Some err) \<Rightarrow> Ret ([], dirty', Some err)
      | Ret (latest, dirty', None) \<Rightarrow>
          (let latestObservation =
                 \<lparr>GroupBy = GroupBy grp, RuleType = RuleType grp, Resources = Some latest\<rparr>
           in case observeGroups funcs namespace prevAllocatedStatus grps dirty' of
                Panic \<Rightarrow> Panic
              | Ret (allocated, dirty'', Some err) \<Rightarrow> Ret ([], dirty'', Some err)
              | Ret (allocated, dirty'', None) \<Rightarrow> Ret (latestObservation # allocated, dirty'', None)))"

definition syncResourceController ::
  "ResourceList option Client \<Rightarrow> (string \<Rightarrow> ObserverFunc option) \<Rightarrow>
   ResourceList option ResourceController \<Rightarrow> synced outcome" where
  "syncResourceController client funcs controller =
     (let n = length (SpecAllowed controller);
          allowed = copySlice (replicate n zeroGroup) (SpecAllowed controller);
          prevAllocatedStatus = snd (AllowedAndAllocated (ctlStatus controller));
          dirty = (Allowed (ctlStatus controller) = None \<or> Allocated (ctlStatus controller) = None)
      in case observeGroups funcs (Namespace (ctlMeta controller)) prevAllocatedStatus allowed dirty of
           Panic \<Rightarrow> Panic
         | Ret (allocated, dirty', Some err) \<Rightarrow> Ret ([], Some err)
         | Ret (allocated, dirty', None) \<Rightarrow>
             if dirty' then
               (let resourceObservation =
                      \<lparr>obsMeta = \<lparr>Name = Name (ctlMeta controller),
                                   Namespace = Namespace (ctlMeta controller),
                                   ResourceVersion = ResourceVersion (ctlMeta controller)\<rparr>,
                       obsStatus = \<lparr>Allowed = Some allowed, Allocated = Some allocated\<rparr>\<rparr>
                in Ret ([resourceObservation],
                        ResourceObservationsCreate client (Namespace (obsMeta resourceObservation))
                          resourceObservation))
             else Ret ([], None))"

definition NewResourceManager ::
  "ResourceList option Client \<Rightarrow> ObserverFuncBinding list list \<Rightarrow> ResourceManager" where
  "NewResourceManager client observers =
     (let funcs = foldl (\<lambda>m binding.
                     m(observerFuncKey (bindingGroupBy binding) (bindingRuleType binding)
                         (bindingResourceName binding) \<mapsto> bindingFunc binding))
                   Map.empty (concat observers)
      in \<lparr>kubeClient = client,
          syncHandler = syncResourceController client funcs,
          observerFuncs = funcs\<rparr>)"

text \<open>Modelled from the spec: \<open>api.NamespaceAll\<close>, the empty namespace name that selects every namespace.\<close>

abbreviation (input) NamespaceAll :: string where
  "NamespaceAll \<equiv> []"

text \<open>
  The loop of \<open>synchronize\<close> over the listed controllers: the handler's error is logged,
  a panic of a task ends the process.
\<close>

fun syncAll ::
  "(ResourceList option ResourceController \<Rightarrow> synced outcome) \<Rightarrow>
   ResourceList option ResourceController list \<Rightarrow>
   (logEntry list \<times> ResourceList option ResourceObservation list) outcome" where
  "syncAll handler [] = Ret ([], [])"
| "syncAll handler (controller # rest) =
     (case handler controller of
        Panic \<Rightarrow> Panic
      | Ret (posted, err) \<Rightarrow>
          (case syncAll handler rest of
             Panic \<Rightarrow> Panic
           | Ret (logged, posted') \<Rightarrow>
               Ret ((case err of None \<Rightarrow> [] | Some e \<Rightarrow> [ErrorSynchronizing e]) @ logged,
                    posted @ posted')))"

text \<open>
  \<open>synchronize\<close> logs a listing error and goes on to read \<open>list.Items\<close>, which panics
  on a nil pointer.  The result is the log and the observations posted in the tick.
\<close>

definition synchronize ::
  "ResourceManager \<Rightarrow> (logEntry list \<times> ResourceList option ResourceObservation list) outcome" where
  "synchronize rm =
     (let (list, err) = ResourceControllersList (kubeClient rm) NamespaceAll;
          logged = (case err of None \<Rightarrow> [] | Some e \<Rightarrow> [SynchronizationError e])
      in case list of
           None \<Rightarrow> Panic
         | Some resourceControllers \<Rightarrow>
             (case syncAll (syncHandler rm) resourceControllers of
                Panic \<Rightarrow> Panic
              | Ret (logged', posted) \<Rightarrow> Ret (logged @ logged', posted)))"

section \<open>Notions used in the statements\<close>

text \<open>
  The map of the namespace scope and the Max rule in the allowed and in the allocated
  projection of a status, as the namespace admission function reads them.
\<close>

definition allowedMax :: "'a option ResourceControllerStatus \<Rightarrow> 'a option" where
  "allowedMax status =
     resourcesOf (map_of (fst (AllowedAndAllocated status)) ResourceControllerGroupByNamespace)
       ResourceControllerRuleTypeMax"

definition allocatedMax :: "'a option ResourceControllerStatus \<Rightarrow> 'a option" where
  "allocatedMax status =
     resourcesOf (map_of (snd (AllowedAndAllocated status)) ResourceControllerGroupByNamespace)
       ResourceControllerRuleTypeMax"

text \<open>The name that the namespace admission function puts into its errors.\<close>

definition displayName :: "Attributes \<Rightarrow> string" where
  "displayName a = (case accessorName (GetObject a) of None \<Rightarrow> ''Unknown'' | Some n \<Rightarrow> n)"

text \<open>
  The limit errors of the checks that precede the CPU and the memory check of a pod: the
  count of the kind, and the CPU limit (which precedes the memory check).
\<close>

fun earlierLimit :: "cause \<Rightarrow> bool" where
  "earlierLimit (LimitedTo _ _ _) = True"
| "earlierLimit (LimitCPU _ _) = True"
| "earlierLimit _ = False"

text \<open>
  A call of the namespace admission function that does not admit: it panics, or it
  returns a forbidden error for the kind and name of the request whose cause is that the
  observation is awaited or that an earlier limit is reached.
\<close>

definition refused :: "Attributes \<Rightarrow> admission outcome \<Rightarrow> bool" where
  "refused a r \<longleftrightarrow>
     (case r of
        Panic \<Rightarrow> True
      | Ret (h, d, None) \<Rightarrow> False
      | Ret (h, d, Some (Forbidden kind name c)) \<Rightarrow>
          kind = GetKind a \<and> name = displayName a \<and> (c = WaitingForObservation \<or> earlierLimit c)
      | Ret (h, d, Some _) \<Rightarrow> False)"

text \<open>The three built-in admission functions other than the namespace one.\<close>

definition otherAdmissionFuncs :: "AdmissionFunc set" where
  "otherAdmissionFuncs = {pod_admissionFunc, container_admissionFunc, replicationcontroller_admissionFunc}"

text \<open>What \<open>Admit\<close> returns for a controller after it has handed an observation to the store.\<close>

definition enforcing :: "'r Client \<Rightarrow> Attributes \<Rightarrow> string \<Rightarrow> string \<Rightarrow>
    ResourceList option ResourceObservation \<Rightarrow> error option" where
  "enforcing client a name namespace posted =
     (case ResourceObservationsCreate client namespace posted of
        None \<Rightarrow> None
      | Some err \<Rightarrow> Some (Forbidden (GetKind a) name (ErrorEnforcing (GetOperation a) (GetKind a))))"

text \<open>
  The resource names of a group, and an allocated group that answers an allowed group:
  the same scope and rule, and an entry for exactly those resource names of the allowed
  group that have an observer function.
\<close>

definition resourceNames :: "ResourceList option ResourceControllerGroup \<Rightarrow> ResourceName set" where
  "resourceNames g = (case Resources g of None \<Rightarrow> {} | Some resources \<Rightarrow> fst ` set resources)"

definition observedAs ::
  "(string \<Rightarrow> ObserverFunc option) \<Rightarrow> ResourceList option ResourceControllerGroup \<Rightarrow>
   ResourceList option ResourceControllerGroup \<Rightarrow> bool" where
  "observedAs funcs g g' \<longleftrightarrow>
     GroupBy g' = GroupBy g \<and> RuleType g' = RuleType g \<and>
     resourceNames g' =
       {name \<in> resourceNames g. funcs (observerFuncKey (GroupBy g) (RuleType g) name) \<noteq> None}"

section \<open>Example inputs\<close>

subsection \<open>Admission\<close>

definition maxGroup :: "'r \<Rightarrow> 'r ResourceControllerGroup" where
  "maxGroup r = \<lparr>GroupBy = ResourceControllerGroupByNamespace,
                 RuleType = ResourceControllerRuleTypeMax, Resources = r\<rparr>"

definition minGroup :: "'r \<Rightarrow> 'r ResourceControllerGroup" where
  "minGroup r = \<lparr>GroupBy = ResourceControllerGroupByNamespace,
                 RuleType = ResourceControllerRuleTypeMin, Resources = r\<rparr>"

text \<open>
  A quota whose allowed map lives at address 0 and whose allocated map lives at address
  1, and heaps that give the two maps their contents.
\<close>

definition quotaController :: "nat option ResourceController" where
  "quotaController =
     \<lparr>ctlMeta = \<lparr>Name = ''quota'', Namespace = ''ns'', ResourceVersion = ''7''\<rparr>,
      SpecAllowed = [maxGroup (Some 0)],
      ctlStatus = \<lparr>Allowed = Some [maxGroup (Some 0)], Allocated = Some [maxGroup (Some 1)]\<rparr>\<rparr>"

definition heapOf :: "ResourceList \<Rightarrow> ResourceList \<Rightarrow> heap" where
  "heapOf allowed allocated = (\<lambda>_. [])(0 := allowed, 1 := allocated)"

definition fullHeap :: heap where
  "fullHeap = heapOf [(''Pods'', NewQuantity 3)] [(''Pods'', NewQuantity 3)]"

definition roomHeap :: heap where
  "roomHeap = heapOf [(''Pods'', NewQuantity 3)] [(''Pods'', NewQuantity 2)]"

definition cpuHeap :: "int \<Rightarrow> heap" where
  "cpuHeap pods =
     heapOf [(''Pods'', NewQuantity 3), (''CPU'', NewQuantity 1)]
            [(''Pods'', NewQuantity pods), (''CPU'', NewMilliQuantity 950)]"

definition waitingHeap :: heap where
  "waitingHeap = heapOf [(''Pods'', NewQuantity 5), (''CPU'', NewQuantity 1)] []"

definition webPod :: "int \<Rightarrow> Pod" where
  "webPod cpu =
     \<lparr>podName = ''web'',
      Containers = [\<lparr>containerName = ''c'', CPU = NewMilliQuantity cpu, Memory = NewQuantity 64\<rparr>]\<rparr>"

definition idlePod :: Pod where
  "idlePod = \<lparr>podName = ''idle'', Containers = []\<rparr>"

definition request :: "string \<Rightarrow> string \<Rightarrow> Object \<Rightarrow> Attributes" where
  "request operation kind obj =
     \<lparr>GetOperation = operation, GetKind = kind, GetNamespace = ''ns'', GetObject = obj\<rparr>"

definition createPod :: Attributes where
  "createPod = request ''CREATE'' ''pods'' (PodObject (webPod 100))"

definition quotaClient :: "nat option Client" where
  "quotaClient =
     \<lparr>ResourceControllersList = (\<lambda>ns. (Some [quotaController], None)),
      ResourceObservationsCreate = (\<lambda>ns obs. None),
      PodsList = (\<lambda>ns. (Some [], None)),
      ServicesList = (\<lambda>ns. (Some [], None)),
      ReplicationControllersList = (\<lambda>ns. (Some [], None))\<rparr>"

definition builtinAdmissionFuncs :: "AdmissionFunc list" where
  "builtinAdmissionFuncs =
     [namespace_admissionFunc, pod_admissionFunc, container_admissionFunc,
      replicationcontroller_admissionFunc]"

definition postedQuota :: "ResourceList \<Rightarrow> ResourceList \<Rightarrow> ResourceList option ResourceObservation" where
  "postedQuota allowed allocated =
     \<lparr>obsMeta = \<lparr>Name = ''quota'', Namespace = ''ns'', ResourceVersion = ''7''\<rparr>,
      obsStatus = \<lparr>Allowed = Some [maxGroup (Some allowed)], Allocated = Some [maxGroup (Some allocated)]\<rparr>\<rparr>"

text \<open>A status with one allowed group and two allocated groups, the second one for the namespace scope.\<close>

definition lopsidedController :: "nat option ResourceController" where
  "lopsidedController =
     \<lparr>ctlMeta = \<lparr>Name = ''quota'', Namespace = ''ns'', ResourceVersion = ''7''\<rparr>,
      SpecAllowed = [maxGroup (Some 0)],
      ctlStatus =
        \<lparr>Allowed = Some [maxGroup (Some 0)],
         Allocated = Some [\<lparr>GroupBy = ResourceControllerGroupByPod,
                            RuleType = ResourceControllerRuleTypeMax, Resources = Some 2\<rparr>,
                           maxGroup (Some 1)]\<rparr>\<rparr>"

subsection \<open>Registration\<close>

definition twoPlugins :: "AdmissionFunc plugins" where
  "twoPlugins = [(''ResourceLimitsNamespace'', namespace_admissionFunc),
                 (''ResourceLimitsPod'', pod_admissionFunc)]"

subsection \<open>Reconciliation\<close>

definition storeClient ::
  "ResourceList option ResourceController list option \<times> error option \<Rightarrow> Pod list \<Rightarrow>
   ResourceList option Client" where
  "storeClient controllers pods =
     \<lparr>ResourceControllersList = (\<lambda>ns. controllers),
      ResourceObservationsCreate = (\<lambda>ns obs. None),
      PodsList = (\<lambda>ns. (Some pods, None)),
      ServicesList = (\<lambda>ns. (Some [], None)),
      ReplicationControllersList = (\<lambda>ns. (Some [], None))\<rparr>"

definition manager :: "ResourceList option Client \<Rightarrow> ResourceManager" where
  "manager client = NewResourceManager client [ObserverFuncBindings client]"

definition observedController ::
  "ResourceList option ResourceControllerGroup list \<Rightarrow>
   ResourceList option ResourceControllerStatus \<Rightarrow> ResourceList option ResourceController" where
  "observedController spec status =
     \<lparr>ctlMeta = \<lparr>Name = ''quota'', Namespace = ''ns'', ResourceVersion = ''7''\<rparr>,
      SpecAllowed = spec, ctlStatus = status\<rparr>"

definition neverObserved :: "ResourceList option ResourceControllerStatus" where
  "neverObserved = \<lparr>Allowed = None, Allocated = None\<rparr>"

definition cpuStatus :: "Quantity \<Rightarrow> Quantity \<Rightarrow> ResourceList option ResourceControllerStatus" where
  "cpuStatus allowed allocated =
     \<lparr>Allowed = Some [maxGroup (Some [(''CPU'', allowed)])],
      Allocated = Some [maxGroup (Some [(''CPU'', allocated)])]\<rparr>"

definition podsObservation :: "ResourceList option ResourceObservation" where
  "podsObservation =
     \<lparr>obsMeta = \<lparr>Name = ''quota'', Namespace = ''ns'', ResourceVersion = ''7''\<rparr>,
      obsStatus = \<lparr>Allowed = Some [maxGroup (Some [(''Pods'', NewQuantity 5)])],
                    Allocated = Some [maxGroup (Some [(''Pods'', NewQuantity 1)])]\<rparr>\<rparr>"

definition unavailable :: error where
  "unavailable = ClientError ''unavailable''"

section \<open>Unfolding the model\<close>

lemmas quantity_defs = Value_def MilliValue_def NewQuantity_def NewMilliQuantity_def
  wrap64_def roundUp1000_def zeroQuantity_def

lemmas projection_defs = AllowedAndAllocated_def addGroup_def resourcesOf_def lookupRef_def
  entries_def allowedMax_def allocatedMax_def

lemmas namespace_defs = namespace_admissionFunc_def kindsToProcess_def kindToMaxKindResourceName_def
  makeObservation_def andThen_def kindCountBlock_def podCPUBlock_def podMemoryBlock_def podUsageBlock_def

lemmas other_defs = pod_admissionFunc_def container_admissionFunc_def
  replicationcontroller_admissionFunc_def

lemmas admit_defs = Admit_def admitController_def newObservation_def copySlice_def zeroGroup_def
  derefObservation_def derefStatus_def derefGroup_def

lemmas observer_defs = ObserverFuncBindings_def namespaceObserverFuncBindings_def
  containerObserverFuncBindings_def podObserverFuncBindings_def
  replicationControllerObserverFuncBindings_def observe_def observer_pods_def observer_services_def
  observer_replicationControllers_def NewStore_def observerFuncKey_def
  namespaceSum_def sumContainers_def cpuView_def memoryView_def

lemmas sync_defs = syncResourceController_def synchronize_def NewResourceManager_def quantityAt_def
  copySlice_def zeroGroup_def

lemmas example_defs = maxGroup_def minGroup_def quotaController_def heapOf_def webPod_def request_def
  createPod_def quotaClient_def builtinAdmissionFuncs_def postedQuota_def lopsidedController_def
  storeClient_def manager_def observedController_def neverObserved_def cpuStatus_def idlePod_def
  unavailable_def

section \<open>Reconciler: dirty detection\<close>

text \<open>
  Claim C3 (dirty detection uses the milli-value for CPU).  The controller allows 4 CPU
  in its namespace and its status records 1500 milli-CPU as allocated; the store holds one
  pod whose container requests 1501 milli-CPU.  The observer function for (Namespace, Max,
  CPU) delivers 1501 milli-CPU, one milli unit more than recorded, and the sync neither
  marks the observation dirty nor posts it: \<open>syncResourceController\<close> compares
  \<open>quantity.Value()\<close> with \<open>prevQuantity.Value()\<close> for every resource, and both
  quantities round to 2 whole units.
\<close>

theorem sync_misses_milli_change:
  "syncResourceController (storeClient (Some [], None) [webPod 1501])
     (observerFuncs (manager (storeClient (Some [], None) [webPod 1501])))
     (observedController [maxGroup (Some [(''CPU'', NewQuantity 4)])]
        (cpuStatus (NewQuantity 4) (NewMilliQuantity 1500)))
   = Ret ([], None)
   \<and> MilliValue (NewMilliQuantity (namespaceSum cpuView [webPod 1501])) = 1501
   \<and> MilliValue (NewMilliQuantity 1500) = 1500"
  by (simp add: sync_defs observer_defs projection_defs quantity_defs example_defs Let_def)

section \<open>Admission: the observation and the controller share their maps\<close>

text \<open>
  Claim C4 (frame property of the admission snapshot).  One controller allows 3 pods and
  has 2 allocated; a pod is created.  \<open>Admit\<close> posts an observation with 3 allocated
  pods, and afterwards the controller's own \<open>Status.Allocated\<close> reads 3 as well: the
  group structs were copied into the observation, the map behind them (address 1) was
  not, and \<open>makeObservation\<close> assigned into that map.
\<close>

theorem admit_writes_controller_map:
  "Admit quotaClient builtinAdmissionFuncs createPod
      (heapOf [(''Pods'', NewQuantity 3)] [(''Pods'', NewQuantity 2)])
   = Ret (heapOf [(''Pods'', NewQuantity 3)] [(''Pods'', NewQuantity 3)],
          [postedQuota [(''Pods'', NewQuantity 3)] [(''Pods'', NewQuantity 3)]], None)
   \<and> derefStatus (heapOf [(''Pods'', NewQuantity 3)] [(''Pods'', NewQuantity 2)]) (ctlStatus quotaController)
       = \<lparr>Allowed = Some [maxGroup (Some [(''Pods'', NewQuantity 3)])],
          Allocated = Some [maxGroup (Some [(''Pods'', NewQuantity 2)])]\<rparr>
   \<and> derefStatus (heapOf [(''Pods'', NewQuantity 3)] [(''Pods'', NewQuantity 3)]) (ctlStatus quotaController)
       = \<lparr>Allowed = Some [maxGroup (Some [(''Pods'', NewQuantity 3)])],
          Allocated = Some [maxGroup (Some [(''Pods'', NewQuantity 3)])]\<rparr>"
  by (simp add: admit_defs namespace_defs other_defs projection_defs quantity_defs example_defs Let_def)

text \<open>
  The allocated slice of the observation is made with the length of \<open>Status.Allowed\<close>:
  of two allocated groups beside one allowed group, only the first is copied.
\<close>

lemma newObservation_length:
  "length (items (Allocated (ctlStatus lopsidedController))) = 2
   \<and> length (items (Allocated (obsStatus (newObservation lopsidedController)))) = 1"
  by (simp add: admit_defs example_defs)

section \<open>Observers: the container-scope minimum\<close>

text \<open>
  Claim C5 (Min evaluators are seeded by the first element met).  The listing holds a
  pod without containers followed by a pod with one container of 64 memory units and 250
  milli-CPU.  The container-scope Min loops seed only at \<open>i = 0 \<and> j = 0\<close>, the first
  container of the first pod; that pod has none, the running value stays at its initial
  0, and both minima come out as 0 instead of 64 and 250.  Without the empty pod in
  front they come out right.
\<close>

theorem containerMin_not_seeded:
  "containerMin memoryView [idlePod, webPod 250] = 0 \<and> containerMin cpuView [idlePod, webPod 250] = 0
   \<and> containerMin memoryView [webPod 250] = 64 \<and> containerMin cpuView [webPod 250] = 250"
  by (simp add: containerMin_def example_defs memoryView_def cpuView_def quantity_defs)

section \<open>Reconciler: a failing listing\<close>

text \<open>
  Claim C8 (a listing error makes the tick empty).  \<open>synchronize\<close> logs the error of
  \<open>ResourceControllers(NamespaceAll).List\<close> and then reads \<open>list.Items\<close> all the
  same.  With a client that returns no list beside its error the tick panics; with a
  client that returns a list beside its error the controllers in it are synced, here to
  the point of posting an observation.
\<close>

theorem synchronize_listing_error:
  "synchronize (manager (storeClient (None, Some unavailable) [])) = Panic
   \<and> synchronize (manager (storeClient
         (Some [observedController [maxGroup (Some [(''Pods'', NewQuantity 5)])] neverObserved],
          Some unavailable) [idlePod]))
     = Ret ([SynchronizationError unavailable],
            [\<lparr>obsMeta = \<lparr>Name = ''quota'', Namespace = ''ns'', ResourceVersion = ''7''\<rparr>,
              obsStatus = \<lparr>Allowed = Some [maxGroup (Some [(''Pods'', NewQuantity 5)])],
                            Allocated = Some [maxGroup (Some [(''Pods'', NewQuantity 1)])]\<rparr>\<rparr>])"
  by (simp add: sync_defs observer_defs projection_defs quantity_defs example_defs Let_def)

section \<open>Admission functions: deletes and the dirty flag\<close>

text \<open>
  Claim C7 (delete exemption).  For a request whose operation is DELETE each of the four
  built-in admission functions (namespace, pod, container and replication-controller
  scope) returns \<open>(false, nil)\<close> and leaves every map as it was, whatever the
  controller, the observation and the object of the request are.
\<close>

theorem delete_exemption:
  assumes "GetOperation a = ''DELETE''"
  shows "namespace_admissionFunc a input observation h = Ret (h, False, None)
       \<and> pod_admissionFunc a input observation h = Ret (h, False, None)
       \<and> container_admissionFunc a input observation h = Ret (h, False, None)
       \<and> replicationcontroller_admissionFunc a input observation h = Ret (h, False, None)"
  using assms by (simp add: namespace_admissionFunc_def other_defs)

text \<open>An instance: the deletion of a pod.\<close>

theorem delete_exemption_witness:
  "GetOperation (request ''DELETE'' ''pods'' (PodObject (webPod 100))) = ''DELETE''
   \<and> namespace_admissionFunc (request ''DELETE'' ''pods'' (PodObject (webPod 100))) quotaController
         (newObservation quotaController) (heapOf [(''Pods'', NewQuantity 3)] [(''Pods'', NewQuantity 3)])
       = Ret (heapOf [(''Pods'', NewQuantity 3)] [(''Pods'', NewQuantity 3)], False, None)
   \<and> pod_admissionFunc (request ''DELETE'' ''pods'' (PodObject (webPod 100))) quotaController
         (newObservation quotaController) (heapOf [(''Pods'', NewQuantity 3)] [(''Pods'', NewQuantity 3)])
       = Ret (heapOf [(''Pods'', NewQuantity 3)] [(''Pods'', NewQuantity 3)], False, None)
   \<and> container_admissionFunc (request ''DELETE'' ''pods'' (PodObject (webPod 100))) quotaController
         (newObservation quotaController) (heapOf [(''Pods'', NewQuantity 3)] [(''Pods'', NewQuantity 3)])
       = Ret (heapOf [(''Pods'', NewQuantity 3)] [(''Pods'', NewQuantity 3)], False, None)
   \<and> replicationcontroller_admissionFunc (request ''DELETE'' ''pods'' (PodObject (webPod 100))) quotaController
         (newObservation quotaController) (heapOf [(''Pods'', NewQuantity 3)] [(''Pods'', NewQuantity 3)])
       = Ret (heapOf [(''Pods'', NewQuantity 3)] [(''Pods'', NewQuantity 3)], False, None)"
proof -
  have op: "GetOperation (request ''DELETE'' ''pods'' (PodObject (webPod 100))) = ''DELETE''"
    by (simp add: request_def)
  show ?thesis
    using op delete_exemption [OF op] by simp
qed

text \<open>
  The pod, container and replication-controller functions never write to a map and never
  return \<open>dirty = true\<close>.
\<close>

lemma pod_admissionFunc_clean:
  "pod_admissionFunc a c obs h = Ret (h', d, e) \<Longrightarrow> h' = h \<and> \<not> d"
  by (auto simp: pod_admissionFunc_def Let_def split: if_splits option.splits Object.splits)

lemma container_admissionFunc_clean:
  "container_admissionFunc a c obs h = Ret (h', d, e) \<Longrightarrow> h' = h \<and> \<not> d"
  by (auto simp: container_admissionFunc_def Let_def split: if_splits option.splits Object.splits)

lemma replicationcontroller_admissionFunc_clean:
  "replicationcontroller_admissionFunc a c obs h = Ret (h', d, e) \<Longrightarrow> h' = h \<and> \<not> d"
  by (auto simp: replicationcontroller_admissionFunc_def Let_def split: if_splits option.splits Object.splits)

lemma other_clean:
  "f \<in> otherAdmissionFuncs \<Longrightarrow> f a c obs h = Ret (h', d, e) \<Longrightarrow> h' = h \<and> \<not> d"
  by (auto simp: otherAdmissionFuncs_def
        dest: pod_admissionFunc_clean container_admissionFunc_clean
          replicationcontroller_admissionFunc_clean)

lemma invoke_dirty:
  "set fs \<subseteq> insert namespace_admissionFunc otherAdmissionFuncs \<Longrightarrow>
   invokeAdmissionFuncs fs a c obs h d = Ret (h', d', e) \<Longrightarrow> d' \<Longrightarrow> \<not> d \<Longrightarrow>
   namespace_admissionFunc \<in> set fs \<and> (\<exists>h1 h2. namespace_admissionFunc a c obs h1 = Ret (h2, True, None))"
proof (induction fs arbitrary: h d)
  case Nil
  then show ?case by simp
next
  case (Cons f fs)
  show ?case
  proof (cases "f a c obs h")
    case Panic
    with Cons.prems show ?thesis by simp
  next
    case (Ret r)
    obtain h1 fd err where r: "r = (h1, fd, err)" by (cases r) auto
    show ?thesis
    proof (cases err)
      case (Some x)
      with Ret r Cons.prems show ?thesis by simp
    next
      case None
      with Ret r Cons.prems have rest: "invokeAdmissionFuncs fs a c obs h1 (d \<or> fd) = Ret (h', d', e)"
        by simp
      show ?thesis
      proof (cases fd)
        case True
        have "f = namespace_admissionFunc"
        proof (rule ccontr)
          assume "f \<noteq> namespace_admissionFunc"
          with Cons.prems(1) have "f \<in> otherAdmissionFuncs" by auto
          from other_clean [OF this] Ret r True show False by blast
        qed
        with Ret r None True show ?thesis by auto
      next
        case False
        with rest Cons.prems have "invokeAdmissionFuncs fs a c obs h1 d = Ret (h', d', e)" by simp
        from Cons.IH [OF _ this] Cons.prems show ?thesis by auto
      qed
    qed
  qed
qed

text \<open>
  Claim C10 (only the namespace-scope function reports dirty).  On every path on which
  they return, the pod-scope, container-scope and replication-controller-scope functions
  return \<open>dirty = false\<close>.  Hence, when the registered functions are among the four
  built-in ones and \<open>Admit\<close> hands an observation for a controller to
  \<open>ResourceObservations.Create\<close>, the namespace-scope function is registered and has
  returned \<open>dirty = true\<close> without an error for that controller and its observation,
  which it does only after \<open>makeObservation\<close> has written the new allocation.
\<close>

theorem only_namespace_marks_dirty:
  "(\<forall>h' d e. pod_admissionFunc a c obs h = Ret (h', d, e) \<longrightarrow> \<not> d)
   \<and> (\<forall>h' d e. container_admissionFunc a c obs h = Ret (h', d, e) \<longrightarrow> \<not> d)
   \<and> (\<forall>h' d e. replicationcontroller_admissionFunc a c obs h = Ret (h', d, e) \<longrightarrow> \<not> d)
   \<and> (set fs \<subseteq> insert namespace_admissionFunc otherAdmissionFuncs \<longrightarrow>
        (\<forall>h' posted e. admitController client fs a name c h = Ret (h', posted, e) \<and> posted \<noteq> [] \<longrightarrow>
           namespace_admissionFunc \<in> set fs
           \<and> (\<exists>h1 h2. namespace_admissionFunc a c (newObservation c) h1 = Ret (h2, True, None))))"
proof -
  have ns: "set fs \<subseteq> insert namespace_admissionFunc otherAdmissionFuncs \<longrightarrow>
        (\<forall>h' posted e. admitController client fs a name c h = Ret (h', posted, e) \<and> posted \<noteq> [] \<longrightarrow>
           namespace_admissionFunc \<in> set fs
           \<and> (\<exists>h1 h2. namespace_admissionFunc a c (newObservation c) h1 = Ret (h2, True, None)))"
  proof (intro impI allI, elim conjE)
    fix h' posted e
    assume sub: "set fs \<subseteq> insert namespace_admissionFunc otherAdmissionFuncs"
      and adm: "admitController client fs a name c h = Ret (h', posted, e)" and ne: "posted \<noteq> []"
    from adm ne obtain h1 d1 where
      "invokeAdmissionFuncs fs a c (newObservation c) h False = Ret (h1, d1, None)" and "d1"
      by (auto simp: admitController_def Let_def split: outcome.splits option.splits if_splits)
    from invoke_dirty [OF sub this(1) this(2)]
    show "namespace_admissionFunc \<in> set fs
           \<and> (\<exists>h1 h2. namespace_admissionFunc a c (newObservation c) h1 = Ret (h2, True, None))"
      by simp
  qed
  have p: "\<forall>h' d e. pod_admissionFunc a c obs h = Ret (h', d, e) \<longrightarrow> \<not> d"
    by (auto dest: pod_admissionFunc_clean)
  have k: "\<forall>h' d e. container_admissionFunc a c obs h = Ret (h', d, e) \<longrightarrow> \<not> d"
    by (auto dest: container_admissionFunc_clean)
  have r: "\<forall>h' d e. replicationcontroller_admissionFunc a c obs h = Ret (h', d, e) \<longrightarrow> \<not> d"
    by (auto dest: replicationcontroller_admissionFunc_clean)
  show ?thesis by (intro conjI; fact)
qed


text \<open>An instance: the four built-in functions and the quota with 2 of 3 pods allocated.\<close>

theorem only_namespace_marks_dirty_witness:
  "set builtinAdmissionFuncs \<subseteq> insert namespace_admissionFunc otherAdmissionFuncs
   \<and> admitController quotaClient builtinAdmissionFuncs createPod ''web'' quotaController
         (heapOf [(''Pods'', NewQuantity 3)] [(''Pods'', NewQuantity 2)])
       = Ret (heapOf [(''Pods'', NewQuantity 3)] [(''Pods'', NewQuantity 3)],
              [postedQuota [(''Pods'', NewQuantity 3)] [(''Pods'', NewQuantity 3)]], None)
   \<and> pod_admissionFunc createPod quotaController (newObservation quotaController)
         (heapOf [(''Pods'', NewQuantity 3)] [(''Pods'', NewQuantity 2)])
       = Ret (heapOf [(''Pods'', NewQuantity 3)] [(''Pods'', NewQuantity 2)], False, None)
   \<and> container_admissionFunc createPod quotaController (newObservation quotaController)
         (heapOf [(''Pods'', NewQuantity 3)] [(''Pods'', NewQuantity 2)])
       = Ret (heapOf [(''Pods'', NewQuantity 3)] [(''Pods'', NewQuantity 2)], False, None)
   \<and> replicationcontroller_admissionFunc createPod quotaController (newObservation quotaController)
         (heapOf [(''Pods'', NewQuantity 3)] [(''Pods'', NewQuantity 2)])
       = Ret (heapOf [(''Pods'', NewQuantity 3)] [(''Pods'', NewQuantity 2)], False, None)
   \<and> namespace_admissionFunc \<in> set builtinAdmissionFuncs
   \<and> (\<exists>h1 h2. namespace_admissionFunc createPod quotaController (newObservation quotaController) h1
                  = Ret (h2, True, None))"
proof -
  let ?h = "heapOf [(''Pods'', NewQuantity 3)] [(''Pods'', NewQuantity 2)]"
  have sub: "set builtinAdmissionFuncs \<subseteq> insert namespace_admissionFunc otherAdmissionFuncs"
    by (simp add: builtinAdmissionFuncs_def otherAdmissionFuncs_def)
  have adm: "admitController quotaClient builtinAdmissionFuncs createPod ''web'' quotaController ?h
       = Ret (heapOf [(''Pods'', NewQuantity 3)] [(''Pods'', NewQuantity 3)],
              [postedQuota [(''Pods'', NewQuantity 3)] [(''Pods'', NewQuantity 3)]], None)"
    by (simp add: admit_defs namespace_defs other_defs projection_defs quantity_defs example_defs Let_def)
  have others: "pod_admissionFunc createPod quotaController (newObservation quotaController) ?h
       = Ret (?h, False, None)"
    "container_admissionFunc createPod quotaController (newObservation quotaController) ?h
       = Ret (?h, False, None)"
    "replicationcontroller_admissionFunc createPod quotaController (newObservation quotaController) ?h
       = Ret (?h, False, None)"
    by (simp_all add: other_defs projection_defs example_defs Let_def)
  from only_namespace_marks_dirty
         [of createPod quotaController "newObservation quotaController" ?h builtinAdmissionFuncs
             quotaClient "''web''"]
       sub adm
  have "namespace_admissionFunc \<in> set builtinAdmissionFuncs
        \<and> (\<exists>h1 h2. namespace_admissionFunc createPod quotaController (newObservation quotaController) h1
                  = Ret (h2, True, None))"
    by blast
  with sub adm others show ?thesis by simp
qed

section \<open>Admission function registry: the order of the functions\<close>

text \<open>Registering under a new name appends to the registry; a successful series of registrations leaves exactly its entries.\<close>

lemma update_new_key: "map_of ps k = None \<Longrightarrow> AList.update k v ps = ps @ [(k, v)]"
  by (induction ps) auto

lemma registerAll_appends:
  "registerAll regs ps = Some ps' \<Longrightarrow> distinct (map fst ps) \<Longrightarrow>
   ps' = ps @ regs \<and> distinct (map fst ps')"
proof (induction regs arbitrary: ps)
  case Nil
  then show ?case by simp
next
  case (Cons reg regs)
  obtain name f where reg: "reg = (name, f)" by (cases reg)
  from Cons.prems(1) reg have new: "map_of ps name = None"
    by (auto simp: RegisterAdmissionFunc_def split: if_splits)
  with Cons.prems(1) reg have rest: "registerAll regs (ps @ [(name, f)]) = Some ps'"
    by (simp add: RegisterAdmissionFunc_def update_new_key)
  from new have "name \<notin> fst ` set ps" by (simp add: map_of_eq_None_iff)
  with Cons.prems(2) have "distinct (map fst (ps @ [(name, f)]))" by simp
  from Cons.IH [OF rest this]
  have A: "ps' = (ps @ [(name, f)]) @ regs" and B: "distinct (map fst ps')" by blast+
  from A reg have C: "ps' = ps @ reg # regs" by simp
  from C B show ?case by (rule conjI)
qed

lemma map_filter_agree:
  "\<forall>x \<in> set xs. f x = g x \<Longrightarrow> List.map_filter f xs = List.map_filter g xs"
  by (induction xs) (auto simp: split: option.splits)

lemma map_filter_keys:
  "distinct (map fst ps) \<Longrightarrow> List.map_filter (map_of ps) (map fst ps) = map snd ps"
proof (induction ps)
  case Nil
  then show ?case by (simp add:)
next
  case (Cons p ps)
  obtain k v where p: "p = (k, v)" by (cases p)
  from Cons.prems p have notin: "k \<notin> fst ` set ps" and d: "distinct (map fst ps)" by auto
  have "List.map_filter (map_of (p # ps)) (map fst (p # ps))
        = v # List.map_filter (map_of (p # ps)) (map fst ps)"
    by (simp add: p)
  also have "List.map_filter (map_of (p # ps)) (map fst ps) = List.map_filter (map_of ps) (map fst ps)"
    using notin by (intro map_filter_agree) (auto simp: p image_iff)
  also have "\<dots> = map snd ps" by (rule Cons.IH [OF d])
  finally show ?case by (simp add: p)
qed

lemma mset_map_filter:
  "mset (List.map_filter f xs) = image_mset (the \<circ> f) (filter_mset (\<lambda>x. f x \<noteq> None) (mset xs))"
  by (simp add: List.map_filter_def)

lemma map_filter_total:
  "\<forall>x \<in> set xs. f x \<noteq> None \<Longrightarrow> List.map_filter f xs = map (\<lambda>x. the (f x)) xs"
  by (induction xs) (auto simp:)

lemma invoke_append:
  "invokeAdmissionFuncs (fs @ gs) a c obs h d =
     (case invokeAdmissionFuncs fs a c obs h d of
        Panic \<Rightarrow> Panic
      | Ret (h', d', Some e) \<Rightarrow> Ret (h', d', Some e)
      | Ret (h', d', None) \<Rightarrow> invokeAdmissionFuncs gs a c obs h' d')"
  by (induction fs arbitrary: h d) (auto split: outcome.splits option.splits)

text \<open>
  Claim C9, amended.  After a series of successful registrations, for every order in
  which the loop of \<open>GetAdmissionFuncs\<close> may visit the names of the registry, the
  slice it returns holds every registered function exactly once, the function at each
  position being the one registered under the name visited at that position; that
  order need not be the order of registration.  \<open>Admit\<close> applies the functions in
  the order of the slice: the functions of a front part run first, and the rest runs
  only if none of them failed, on the heap and with the dirty flag they left.
\<close>

theorem GetAdmissionFuncs_registered:
  assumes reg: "registerAll regs [] = Some plugins" and order: "rangeOrder plugins order"
  shows "mset (GetAdmissionFuncs order plugins) = mset (map snd regs)
       \<and> GetAdmissionFuncs order plugins = map (\<lambda>name. the (map_of regs name)) order
       \<and> invokeAdmissionFuncs (fs @ gs) a c obs h d =
           (case invokeAdmissionFuncs fs a c obs h d of
              Panic \<Rightarrow> Panic
            | Ret (h', d', Some e) \<Rightarrow> Ret (h', d', Some e)
            | Ret (h', d', None) \<Rightarrow> invokeAdmissionFuncs gs a c obs h' d')"
proof -
  from registerAll_appends [OF reg] have eq: "plugins = regs" and dist: "distinct (map fst regs)"
    by auto
  from order eq have o: "distinct order" "set order = set (map fst regs)"
    by (simp_all add: rangeOrder_def)
  have "mset order = mset (map fst regs)"
    using set_eq_iff_mset_eq_distinct [OF o(1) dist] o(2) by blast
  then have "mset (List.map_filter (map_of regs) order)
             = mset (List.map_filter (map_of regs) (map fst regs))"
    by (simp only: mset_map_filter)
  with dist have m: "mset (GetAdmissionFuncs order plugins) = mset (map snd regs)"
    by (simp add: GetAdmissionFuncs_def eq map_filter_keys)
  from o have "\<forall>x \<in> set order. map_of regs x \<noteq> None"
    by (auto simp: map_of_eq_None_iff)
  then have l: "GetAdmissionFuncs order plugins = map (\<lambda>name. the (map_of regs name)) order"
    by (simp add: GetAdmissionFuncs_def eq map_filter_total)
  from m l invoke_append show ?thesis by blast
qed

lemma namespace_neq_pod: "namespace_admissionFunc \<noteq> pod_admissionFunc"
proof
  assume eq: "namespace_admissionFunc = pod_admissionFunc"
  let ?h = "heapOf [(''Pods'', NewQuantity 3)] [(''Pods'', NewQuantity 2)]"
  have "namespace_admissionFunc createPod quotaController (newObservation quotaController) ?h
        = Ret (heapOf [(''Pods'', NewQuantity 3)] [(''Pods'', NewQuantity 3)], True, None)"
    by (simp add: admit_defs namespace_defs projection_defs quantity_defs example_defs Let_def)
  moreover have "pod_admissionFunc createPod quotaController (newObservation quotaController) ?h
        = Ret (?h, False, None)"
    by (simp add: other_defs projection_defs example_defs Let_def)
  ultimately show False using eq by simp
qed

text \<open>
  Claim C9 as stated fails: with the namespace function registered before the pod
  function, a loop that visits the name of the pod function first returns the pod
  function first.
\<close>

theorem registration_order_counterexample:
  "registerAll twoPlugins [] = Some twoPlugins
   \<and> rangeOrder twoPlugins [''ResourceLimitsPod'', ''ResourceLimitsNamespace'']
   \<and> GetAdmissionFuncs [''ResourceLimitsPod'', ''ResourceLimitsNamespace''] twoPlugins
       = [pod_admissionFunc, namespace_admissionFunc]
   \<and> [pod_admissionFunc, namespace_admissionFunc] \<noteq> map snd twoPlugins"
  using namespace_neq_pod
  by (auto simp: twoPlugins_def RegisterAdmissionFunc_def rangeOrder_def GetAdmissionFuncs_def
       )

text \<open>An instance: the two registrations above, visited in the opposite order.\<close>

theorem GetAdmissionFuncs_registered_witness:
  "registerAll twoPlugins [] = Some twoPlugins
   \<and> rangeOrder twoPlugins [''ResourceLimitsPod'', ''ResourceLimitsNamespace'']
   \<and> mset (GetAdmissionFuncs [''ResourceLimitsPod'', ''ResourceLimitsNamespace''] twoPlugins)
       = mset [namespace_admissionFunc, pod_admissionFunc]
   \<and> GetAdmissionFuncs [''ResourceLimitsPod'', ''ResourceLimitsNamespace''] twoPlugins
       = [pod_admissionFunc, namespace_admissionFunc]"
proof -
  have reg: "registerAll twoPlugins [] = Some twoPlugins"
    by (simp add: twoPlugins_def RegisterAdmissionFunc_def)
  have order: "rangeOrder twoPlugins [''ResourceLimitsPod'', ''ResourceLimitsNamespace'']"
    by (auto simp: twoPlugins_def rangeOrder_def)
  from GetAdmissionFuncs_registered [OF reg order] reg order
  show ?thesis by (simp add: twoPlugins_def)
qed

section \<open>Reconciler: the keys of a posted observation\<close>

text \<open>
  The inner loop gives the new map an entry for each resource name that has an observer
  function and for no other name; the outer loop builds one allocated group per allowed
  group, in order.
\<close>

lemma observeResources_names:
  "observeResources funcs ns prev groupBy ruleType names store latest dirty = Ret (latest', dirty', None) \<Longrightarrow>
   fst ` set latest' =
     fst ` set latest \<union> {name \<in> set names. funcs (observerFuncKey groupBy ruleType name) \<noteq> None}"
proof (induction names arbitrary: store latest dirty)
  case Nil
  then show ?case by simp
next
  case (Cons name names)
  show ?case
  proof (cases "funcs (observerFuncKey groupBy ruleType name)")
    case None
    with Cons.prems have
      "observeResources funcs ns prev groupBy ruleType names store latest dirty = Ret (latest', dirty', None)"
      by simp
    from Cons.IH [OF this] None show ?thesis by auto
  next
    case (Some observerFunc)
    with Cons.prems obtain store' quantity where
      "observeResources funcs ns prev groupBy ruleType names store' (AList.update name quantity latest)
         (dirty \<or> Value quantity \<noteq> Value (quantityAt prev groupBy ruleType name)) = Ret (latest', dirty', None)"
      by (auto simp: Let_def split: outcome.splits sum.splits)
    from Cons.IH [OF this] Some show ?thesis by (auto simp: AList.dom_update)
  qed
qed

lemma observeGroups_groups:
  "observeGroups funcs ns prev groups dirty = Ret (allocated, dirty', None) \<Longrightarrow>
   list_all2 (observedAs funcs) groups allocated"
proof (induction groups arbitrary: allocated dirty)
  case Nil
  then show ?case by simp
next
  case (Cons g groups)
  from Cons.prems obtain latest d1 rest where
    inner: "observeResources funcs ns prev (GroupBy g) (RuleType g)
              (map fst (case Resources g of None \<Rightarrow> [] | Some resources \<Rightarrow> resources))
              NewStore [] dirty = Ret (latest, d1, None)"
    and outer: "observeGroups funcs ns prev groups d1 = Ret (rest, dirty', None)"
    and alloc: "allocated = \<lparr>GroupBy = GroupBy g, RuleType = RuleType g, Resources = Some latest\<rparr> # rest"
    by (auto simp: Let_def split: outcome.splits option.splits)
  from observeResources_names [OF inner]
  have "observedAs funcs g \<lparr>GroupBy = GroupBy g, RuleType = RuleType g, Resources = Some latest\<rparr>"
    by (auto simp: observedAs_def resourceNames_def split: option.splits)
  with Cons.IH [OF outer] alloc show ?case by simp
qed

lemma copySlice_same_length: "length src = n \<Longrightarrow> copySlice (replicate n z) src = src"
  by (simp add: copySlice_def)

text \<open>
  Claim C2, amended.  Whenever \<open>syncResourceController\<close> hands an observation to the
  store, the allocated groups of that observation answer the groups of \<open>Spec.Allowed\<close>
  one by one: there are as many, the group at each index has the scope and the rule of
  the allowed group at that index, and it has an entry for a resource name exactly when
  the allowed group lists that name and an observer function is registered for the rule
  key.  A rule key without an observer function gets no allocated entry.
\<close>

theorem sync_observes_registered_keys:
  assumes sync: "syncResourceController client funcs controller = Ret (posted, err)"
    and obs: "obs \<in> set posted"
  shows "length (items (Allocated (obsStatus obs))) = length (SpecAllowed controller)
       \<and> (\<forall>i < length (SpecAllowed controller). \<forall>name.
            GroupBy (items (Allocated (obsStatus obs)) ! i) = GroupBy (SpecAllowed controller ! i)
          \<and> RuleType (items (Allocated (obsStatus obs)) ! i) = RuleType (SpecAllowed controller ! i)
          \<and> (name \<in> resourceNames (items (Allocated (obsStatus obs)) ! i) \<longleftrightarrow>
               name \<in> resourceNames (SpecAllowed controller ! i)
               \<and> funcs (observerFuncKey (GroupBy (SpecAllowed controller ! i))
                          (RuleType (SpecAllowed controller ! i)) name) \<noteq> None))"
proof -
  from sync obs obtain allocated dirty' where
    groups: "observeGroups funcs (Namespace (ctlMeta controller))
               (snd (AllowedAndAllocated (ctlStatus controller))) (SpecAllowed controller)
               (Allowed (ctlStatus controller) = None \<or> Allocated (ctlStatus controller) = None)
             = Ret (allocated, dirty', None)"
    and alloc: "items (Allocated (obsStatus obs)) = allocated"
    by (auto simp: syncResourceController_def copySlice_same_length Let_def
          split: outcome.splits option.splits if_splits)
  from observeGroups_groups [OF groups]
  have all2: "list_all2 (observedAs funcs) (SpecAllowed controller) allocated" .
  then have len: "length allocated = length (SpecAllowed controller)"
    by (simp add: list_all2_lengthD)
  have "observedAs funcs (SpecAllowed controller ! i) (allocated ! i)"
    if "i < length (SpecAllowed controller)" for i
    using all2 that by (simp add: list_all2_nthD)
  then show ?thesis
    using len alloc by (auto simp: observedAs_def)
qed

text \<open>
  Claim C2 as stated fails: no observer function is registered for (Namespace, Min,
  CPU), and the observation posted for a controller that allows it has an allocated
  group without a CPU entry.
\<close>

theorem sync_unregistered_key_counterexample:
  "syncResourceController (storeClient (Some [], None) [webPod 100])
     (observerFuncs (manager (storeClient (Some [], None) [webPod 100])))
     (observedController [minGroup (Some [(''CPU'', NewQuantity 1)])] neverObserved)
   = Ret ([\<lparr>obsMeta = \<lparr>Name = ''quota'', Namespace = ''ns'', ResourceVersion = ''7''\<rparr>,
            obsStatus = \<lparr>Allowed = Some [minGroup (Some [(''CPU'', NewQuantity 1)])],
                          Allocated = Some [minGroup (Some [])]\<rparr>\<rparr>], None)"
  by (simp add: sync_defs observer_defs projection_defs quantity_defs example_defs Let_def)

text \<open>An instance: a controller that allows 5 pods, observed for the first time with one pod in the store.\<close>

theorem sync_observes_registered_keys_witness:
  "syncResourceController (storeClient (Some [], None) [idlePod])
     (observerFuncs (manager (storeClient (Some [], None) [idlePod])))
     (observedController [maxGroup (Some [(''Pods'', NewQuantity 5)])] neverObserved)
   = Ret ([podsObservation], None)
   \<and> podsObservation \<in> set [podsObservation]
   \<and> length (items (Allocated (obsStatus podsObservation))) = 1
   \<and> ''Pods'' \<in> resourceNames (items (Allocated (obsStatus podsObservation)) ! 0)
   \<and> observerFuncs (manager (storeClient (Some [], None) [idlePod])) ''Namespace.Max.Pods'' \<noteq> None"
proof -
  let ?client = "storeClient (Some [], None) [idlePod]"
  let ?ctl = "observedController [maxGroup (Some [(''Pods'', NewQuantity 5)])] neverObserved"
  have sync: "syncResourceController ?client (observerFuncs (manager ?client)) ?ctl
              = Ret ([podsObservation], None)"
    by (simp add: sync_defs observer_defs projection_defs quantity_defs example_defs
          podsObservation_def Let_def)
  have obs: "podsObservation \<in> set [podsObservation]" by simp
  have spec: "length (SpecAllowed ?ctl) = 1" "''Pods'' \<in> resourceNames (SpecAllowed ?ctl ! 0)"
    "GroupBy (SpecAllowed ?ctl ! 0) = ''Namespace''" "RuleType (SpecAllowed ?ctl ! 0) = ''Max''"
    by (simp_all add: example_defs resourceNames_def)
  have func: "observerFuncs (manager ?client) ''Namespace.Max.Pods'' \<noteq> None"
    by (simp add: sync_defs observer_defs example_defs Let_def)
  from sync_observes_registered_keys [OF sync obs] spec func
  have "length (items (Allocated (obsStatus podsObservation))) = 1
        \<and> ''Pods'' \<in> resourceNames (items (Allocated (obsStatus podsObservation)) ! 0)"
    by (simp add: observerFuncKey_def)
  with sync obs func show ?thesis by simp
qed

section \<open>Namespace admission: waiting for the observation\<close>

text \<open>
  An assignment by \<open>makeObservation\<close> changes one key of one map; lookups of other keys
  are as before.
\<close>

lemma makeObservation_cases:
  "makeObservation h status name q =
     (case allocatedMax status of
        None \<Rightarrow> Panic
      | Some m \<Rightarrow> Ret (h(m := AList.update name q (h m))))"
  by (simp add: makeObservation_def allocatedMax_def Let_def)

lemma lookupRef_other_key:
  "k \<noteq> name \<Longrightarrow> lookupRef (h(m := AList.update name q (h m))) r k = lookupRef h r k"
  by (cases r) (simp_all add: lookupRef_def entries_def AList.update_conv')

lemma lookupRef_written:
  "lookupRef (h(m := AList.update name q (h m))) (Some m) name = Some q"
  by (simp add: lookupRef_def entries_def AList.update_conv')

text \<open>The CREATE branch of the namespace function, in terms of its blocks, and what a block can return.\<close>

lemma namespace_create:
  assumes "GetOperation a = ''CREATE''" and "map_of kindsToProcess (GetKind a) \<noteq> None"
  shows "namespace_admissionFunc a input observation h =
     (if map_of (fst (AllowedAndAllocated (ctlStatus input))) ResourceControllerGroupByNamespace = None
      then Ret (h, False, None)
      else andThen
             (kindCountBlock a input observation (displayName a)
                (allowedMax (ctlStatus input)) (allocatedMax (ctlStatus input)) h False)
             (podUsageBlock a input observation (displayName a)
                (allowedMax (ctlStatus input)) (allocatedMax (ctlStatus input))))"
  using assms
  by (auto simp: namespace_admissionFunc_def allowedMax_def allocatedMax_def displayName_def Let_def
        split: prod.splits option.splits)

lemma allowedMax_lookup_group:
  "lookupRef h (allowedMax status) name = Some q \<Longrightarrow>
   map_of (fst (AllowedAndAllocated status)) ResourceControllerGroupByNamespace \<noteq> None"
  by (auto simp: allowedMax_def resourcesOf_def lookupRef_def entries_def split: option.splits)

lemma kindCountBlock_cases:
  "kindCountBlock a input observation name aMax cMax h False = Panic
   \<or> (\<exists>c. kindCountBlock a input observation name aMax cMax h False
            = Ret (h, False, Some (Forbidden (GetKind a) name c))
          \<and> (c = WaitingForObservation \<or> earlierLimit c))
   \<or> kindCountBlock a input observation name aMax cMax h False = Ret (h, False, None)
   \<or> (\<exists>m q. kindCountBlock a input observation name aMax cMax h False
              = Ret (h(m := AList.update (kindToMaxKindResourceName (GetKind a)) q (h m)), True, None))"
  by (auto simp: kindCountBlock_def makeObservation_cases Let_def split: option.splits)

lemma podCPUBlock_cases:
  "podCPUBlock a input observation name cMax cpu podCPU h d = Panic
   \<or> (\<exists>c. podCPUBlock a input observation name cMax cpu podCPU h d
            = Ret (h, d, Some (Forbidden (GetKind a) name c))
          \<and> (c = WaitingForObservation \<or> earlierLimit c))
   \<or> podCPUBlock a input observation name cMax cpu podCPU h d = Ret (h, d, None)
   \<or> (\<exists>m q. podCPUBlock a input observation name cMax cpu podCPU h d
              = Ret (h(m := AList.update ''CPU'' q (h m)), True, None))"
  by (auto simp: podCPUBlock_def makeObservation_cases Let_def split: option.splits)

lemma podCPUBlock_waiting:
  "cpu \<noteq> None \<Longrightarrow> lookupRef h cMax ''CPU'' = None \<Longrightarrow>
   podCPUBlock a input observation name cMax cpu podCPU h d
     = Ret (h, d, Some (Forbidden (GetKind a) name WaitingForObservation))"
  by (auto simp: podCPUBlock_def)

lemma podMemoryBlock_waiting:
  "mem \<noteq> None \<Longrightarrow> lookupRef h cMax ''Memory'' = None \<Longrightarrow>
   podMemoryBlock a input observation name cMax mem podMem h d
     = Ret (h, d, Some (Forbidden (GetKind a) name WaitingForObservation))"
  by (auto simp: podMemoryBlock_def)

lemma podUsageBlock_refused:
  assumes kind: "GetKind a = ''pods''"
    and missing: "lookupRef h aMax ''CPU'' \<noteq> None \<and> lookupRef h cMax ''CPU'' = None
                \<or> lookupRef h aMax ''Memory'' \<noteq> None \<and> lookupRef h cMax ''Memory'' = None"
  shows "refused a (podUsageBlock a input observation (displayName a) aMax cMax h d)"
proof (cases "GetObject a")
  case (PodObject pod)
  let ?cpu = "lookupRef h aMax ''CPU''" and ?mem = "lookupRef h aMax ''Memory''"
  let ?podCPU = "foldl (\<lambda>s c. wrap64 (s + MilliValue (CPU c))) 0 (Containers pod)"
  let ?podMem = "foldl (\<lambda>s c. wrap64 (s + Value (Memory c))) 0 (Containers pod)"
  let ?first = "podCPUBlock a input observation (displayName a) cMax ?cpu ?podCPU h d"
  from missing have some: "?cpu \<noteq> None \<or> ?mem \<noteq> None" by auto
  with kind PodObject have unfold:
    "podUsageBlock a input observation (displayName a) aMax cMax h d =
       andThen ?first (podMemoryBlock a input observation (displayName a) cMax ?mem ?podMem)"
    by (simp add: podUsageBlock_def Let_def)
  show ?thesis
  proof (cases "?cpu \<noteq> None \<and> lookupRef h cMax ''CPU'' = None")
    case True
    then have "?first = Ret (h, d, Some (Forbidden (GetKind a) (displayName a) WaitingForObservation))"
      by (simp add: podCPUBlock_waiting)
    with unfold show ?thesis by (simp add: refused_def andThen_def)
  next
    case False
    with missing have mem: "?mem \<noteq> None" "lookupRef h cMax ''Memory'' = None" by auto
    from podCPUBlock_cases [of a input observation "displayName a" cMax ?cpu ?podCPU h d]
    consider (panic) "?first = Panic"
      | (error) c where "?first = Ret (h, d, Some (Forbidden (GetKind a) (displayName a) c))"
          "c = WaitingForObservation \<or> earlierLimit c"
      | (pass) "?first = Ret (h, d, None)"
      | (wrote) m q where "?first = Ret (h(m := AList.update ''CPU'' q (h m)), True, None)"
      by blast
    then show ?thesis
    proof cases
      case panic
      with unfold show ?thesis by (simp add: refused_def andThen_def)
    next
      case error
      with unfold show ?thesis by (auto simp: refused_def andThen_def)
    next
      case pass
      with unfold mem show ?thesis
        by (simp add: refused_def andThen_def podMemoryBlock_waiting)
    next
      case wrote
      from mem(2) have "lookupRef (h(m := AList.update ''CPU'' q (h m))) cMax ''Memory'' = None"
        by (simp add: lookupRef_other_key)
      with unfold wrote mem(1) show ?thesis
        by (simp add: refused_def andThen_def podMemoryBlock_waiting)
    qed
  qed
qed (use kind in \<open>simp_all add: podUsageBlock_def refused_def Let_def\<close>)

text \<open>
  Claim C6, amended.  For a CREATE of a processed kind: when the status allows the count
  resource of the kind in the namespace scope and has no allocated entry for it, the
  namespace admission function fails with the forbidden error that says the observation
  is awaited, and it neither writes a map nor reports dirty.  When the kind is pods and
  the status allows CPU (or memory) and has no allocated entry for it, the function does
  not admit either: unless it panics, it returns a forbidden error, which is the
  awaited-observation error or the limit error of a check that runs earlier (the pod
  count, or the CPU limit before the memory check).
\<close>

theorem waiting_for_observation:
  assumes create: "GetOperation a = ''CREATE''"
    and kind: "map_of kindsToProcess (GetKind a) \<noteq> None"
  shows "(lookupRef h (allowedMax (ctlStatus input)) (kindToMaxKindResourceName (GetKind a)) \<noteq> None
            \<and> lookupRef h (allocatedMax (ctlStatus input)) (kindToMaxKindResourceName (GetKind a)) = None
          \<longrightarrow> namespace_admissionFunc a input observation h
                = Ret (h, False, Some (Forbidden (GetKind a) (displayName a) WaitingForObservation)))
       \<and> (GetKind a = ''pods''
            \<and> (lookupRef h (allowedMax (ctlStatus input)) ''CPU'' \<noteq> None
                  \<and> lookupRef h (allocatedMax (ctlStatus input)) ''CPU'' = None
                \<or> lookupRef h (allowedMax (ctlStatus input)) ''Memory'' \<noteq> None
                  \<and> lookupRef h (allocatedMax (ctlStatus input)) ''Memory'' = None)
          \<longrightarrow> refused a (namespace_admissionFunc a input observation h))"
proof (intro conjI impI)
  let ?aMax = "allowedMax (ctlStatus input)" and ?cMax = "allocatedMax (ctlStatus input)"
  let ?name = "kindToMaxKindResourceName (GetKind a)"
  assume "lookupRef h ?aMax ?name \<noteq> None \<and> lookupRef h ?cMax ?name = None"
  then obtain limit where limit: "lookupRef h ?aMax ?name = Some limit"
    and none: "lookupRef h ?cMax ?name = None" by auto
  from limit have "?aMax \<noteq> None" by (auto simp: lookupRef_def entries_def split: option.splits)
  with limit none have "kindCountBlock a input observation (displayName a) ?aMax ?cMax h False
      = Ret (h, False, Some (Forbidden (GetKind a) (displayName a) WaitingForObservation))"
    by (simp add: kindCountBlock_def Let_def)
  with allowedMax_lookup_group [OF limit] namespace_create [OF create kind]
  show "namespace_admissionFunc a input observation h
          = Ret (h, False, Some (Forbidden (GetKind a) (displayName a) WaitingForObservation))"
    by (simp add: andThen_def)
next
  let ?aMax = "allowedMax (ctlStatus input)" and ?cMax = "allocatedMax (ctlStatus input)"
  let ?count = "kindCountBlock a input observation (displayName a) ?aMax ?cMax h False"
  assume hyp: "GetKind a = ''pods''
            \<and> (lookupRef h ?aMax ''CPU'' \<noteq> None \<and> lookupRef h ?cMax ''CPU'' = None
                \<or> lookupRef h ?aMax ''Memory'' \<noteq> None \<and> lookupRef h ?cMax ''Memory'' = None)"
  then have pods: "GetKind a = ''pods''"
    and missing: "lookupRef h ?aMax ''CPU'' \<noteq> None \<and> lookupRef h ?cMax ''CPU'' = None
                \<or> lookupRef h ?aMax ''Memory'' \<noteq> None \<and> lookupRef h ?cMax ''Memory'' = None"
    by simp_all
  from missing obtain k q where "lookupRef h ?aMax k = Some q" by auto
  from allowedMax_lookup_group [OF this] namespace_create [OF create kind]
  have unfold: "namespace_admissionFunc a input observation h =
      andThen ?count (podUsageBlock a input observation (displayName a) ?aMax ?cMax)"
    by auto
  from kindCountBlock_cases [of a input observation "displayName a" ?aMax ?cMax h]
  consider (panic) "?count = Panic"
    | (error) c where "?count = Ret (h, False, Some (Forbidden (GetKind a) (displayName a) c))"
        "c = WaitingForObservation \<or> earlierLimit c"
    | (pass) "?count = Ret (h, False, None)"
    | (wrote) m q where
        "?count = Ret (h(m := AList.update (kindToMaxKindResourceName (GetKind a)) q (h m)), True, None)"
    by blast
  then show "refused a (namespace_admissionFunc a input observation h)"
  proof cases
    case panic
    with unfold show ?thesis by (simp add: refused_def andThen_def)
  next
    case error
    with unfold show ?thesis by (auto simp: refused_def andThen_def)
  next
    case pass
    with unfold podUsageBlock_refused [OF pods missing, of input observation False]
    show ?thesis by (simp add: andThen_def)
  next
    case wrote
    let ?h' = "h(m := AList.update (kindToMaxKindResourceName (GetKind a)) q (h m))"
    from pods have name: "kindToMaxKindResourceName (GetKind a) = ''Pods''"
      by (simp add: kindToMaxKindResourceName_def)
    from missing have
      "lookupRef ?h' ?aMax ''CPU'' \<noteq> None \<and> lookupRef ?h' ?cMax ''CPU'' = None
       \<or> lookupRef ?h' ?aMax ''Memory'' \<noteq> None \<and> lookupRef ?h' ?cMax ''Memory'' = None"
      by (simp add: name lookupRef_other_key)
    from unfold wrote podUsageBlock_refused [OF pods this, of input observation True]
    show ?thesis by (simp add: andThen_def)
  qed
qed

text \<open>An instance: 5 pods and 1 CPU allowed, nothing allocated yet, and a pod is created.\<close>

theorem waiting_for_observation_witness:
  "GetOperation createPod = ''CREATE''
   \<and> map_of kindsToProcess (GetKind createPod) \<noteq> None
   \<and> GetKind createPod = ''pods''
   \<and> lookupRef waitingHeap (allowedMax (ctlStatus quotaController)) ''Pods'' \<noteq> None
   \<and> lookupRef waitingHeap (allocatedMax (ctlStatus quotaController)) ''Pods'' = None
   \<and> lookupRef waitingHeap (allowedMax (ctlStatus quotaController)) ''CPU'' \<noteq> None
   \<and> lookupRef waitingHeap (allocatedMax (ctlStatus quotaController)) ''CPU'' = None
   \<and> namespace_admissionFunc createPod quotaController (newObservation quotaController) waitingHeap
       = Ret (waitingHeap, False, Some (Forbidden ''pods'' ''web'' WaitingForObservation))
   \<and> refused createPod
         (namespace_admissionFunc createPod quotaController (newObservation quotaController) waitingHeap)"
proof -
  have create: "GetOperation createPod = ''CREATE''"
    and kind: "map_of kindsToProcess (GetKind createPod) \<noteq> None"
    and pods: "GetKind createPod = ''pods''"
    and name: "kindToMaxKindResourceName (GetKind createPod) = ''Pods''"
    and display: "displayName createPod = ''web''"
    by (simp_all add: example_defs kindsToProcess_def kindToMaxKindResourceName_def displayName_def)
  have lookups:
    "lookupRef waitingHeap (allowedMax (ctlStatus quotaController)) ''Pods'' \<noteq> None"
    "lookupRef waitingHeap (allocatedMax (ctlStatus quotaController)) ''Pods'' = None"
    "lookupRef waitingHeap (allowedMax (ctlStatus quotaController)) ''CPU'' \<noteq> None"
    "lookupRef waitingHeap (allocatedMax (ctlStatus quotaController)) ''CPU'' = None"
    by (simp_all add: waitingHeap_def projection_defs example_defs)
  from waiting_for_observation [OF create kind, of waitingHeap quotaController
         "newObservation quotaController"] lookups pods name display
  have "namespace_admissionFunc createPod quotaController (newObservation quotaController) waitingHeap
          = Ret (waitingHeap, False, Some (Forbidden ''pods'' ''web'' WaitingForObservation))
        \<and> refused createPod
              (namespace_admissionFunc createPod quotaController (newObservation quotaController) waitingHeap)"
    by (simp add: refused_def)
  with create kind pods lookups show ?thesis by blast
qed

text \<open>
  Claim C6 as stated fails for CPU: with 3 of 3 pods allocated, CPU allowed and no CPU
  allocated, the function rejects on the pod limit, not with the awaited-observation
  error.
\<close>

theorem waiting_for_observation_counterexample:
  "GetOperation createPod = ''CREATE'' \<and> GetKind createPod = ''pods''
   \<and> lookupRef (heapOf [(''Pods'', NewQuantity 3), (''CPU'', NewQuantity 1)] [(''Pods'', NewQuantity 3)])
         (allowedMax (ctlStatus quotaController)) ''CPU'' = Some (NewQuantity 1)
   \<and> lookupRef (heapOf [(''Pods'', NewQuantity 3), (''CPU'', NewQuantity 1)] [(''Pods'', NewQuantity 3)])
         (allocatedMax (ctlStatus quotaController)) ''CPU'' = None
   \<and> namespace_admissionFunc createPod quotaController (newObservation quotaController)
         (heapOf [(''Pods'', NewQuantity 3), (''CPU'', NewQuantity 1)] [(''Pods'', NewQuantity 3)])
       = Ret (heapOf [(''Pods'', NewQuantity 3), (''CPU'', NewQuantity 1)] [(''Pods'', NewQuantity 3)],
              False, Some (Forbidden ''pods'' ''web'' (LimitedTo (NewQuantity 3) ''pods'' ''ns'')))"
  by (simp add: admit_defs namespace_defs projection_defs quantity_defs example_defs Let_def)

section \<open>Namespace admission: the pod count\<close>

text \<open>Quantities are within \<open>int64\<close>, so the incremented count does not wrap below a limit.\<close>

lemma wrap64_id: "int64 x \<Longrightarrow> wrap64 x = x"
  by (simp add: wrap64_def int64_def)

lemma int64_wrap64: "int64 (wrap64 x)"
  by (simp add: wrap64_def int64_def)

lemma int64_Value: "int64 (Value q)"
  by (simp add: Value_def int64_wrap64)

lemma Value_succ: "Value A < Value L \<Longrightarrow> wrap64 (Value A + 1) = Value A + 1"
  using int64_Value [of A] int64_Value [of L] by (intro wrap64_id) (simp add: int64_def)

text \<open>
  When the status has no more allocated than allowed groups, the observation that
  \<open>Admit\<close> constructs holds the same map for the namespace scope and the Max rule as the
  controller does.
\<close>

lemma addGroup_zeroGroup:
  "g \<noteq> [] \<Longrightarrow> map_of (addGroup m zeroGroup) g = map_of m g"
  by (simp add: addGroup_def zeroGroup_def AList.update_conv')

lemma foldl_addGroup_zeroGroups:
  "g \<noteq> [] \<Longrightarrow> map_of (foldl addGroup m (replicate k zeroGroup)) g = map_of m g"
  by (induction k arbitrary: m) (simp_all add: addGroup_zeroGroup)

lemma copySlice_shorter:
  "length src \<le> n \<Longrightarrow> copySlice (replicate n z) src = src @ replicate (n - length src) z"
  by (simp add: copySlice_def)

lemma snapshot_allocatedMax:
  assumes "length (items (Allocated (ctlStatus c))) \<le> length (items (Allowed (ctlStatus c)))"
  shows "allocatedMax (obsStatus (newObservation c)) = allocatedMax (ctlStatus c)"
  using assms
  by (simp add: allocatedMax_def newObservation_def AllowedAndAllocated_def Let_def
        copySlice_shorter foldl_addGroup_zeroGroups)

text \<open>
  A list of registered functions among the four built-in ones: the functions other than
  the namespace one pass the heap and the dirty flag on, an error of the namespace
  function ends the loop with an error, and the result of the loop is that of the
  namespace function when it is registered once.
\<close>

lemma invoke_others:
  "set fs \<subseteq> otherAdmissionFuncs \<Longrightarrow> invokeAdmissionFuncs fs a c obs h d = Ret (h', d', e) \<Longrightarrow>
   h' = h \<and> d' = d"
proof (induction fs arbitrary: h d)
  case Nil
  then show ?case by simp
next
  case (Cons f fs)
  from Cons.prems(1) have f: "f \<in> otherAdmissionFuncs" and fs: "set fs \<subseteq> otherAdmissionFuncs" by auto
  show ?case
  proof (cases "f a c obs h")
    case Panic
    with Cons.prems(2) show ?thesis by simp
  next
    case (Ret r)
    obtain h1 fd err where r: "r = (h1, fd, err)" by (cases r) auto
    from other_clean [OF f, of a c obs h h1 fd err] Ret r have clean: "h1 = h" "\<not> fd" by simp_all
    show ?thesis
    proof (cases err)
      case None
      with Cons.prems(2) Ret r clean have "invokeAdmissionFuncs fs a c obs h d = Ret (h', d', e)" by simp
      from Cons.IH [OF fs this] show ?thesis .
    next
      case (Some x)
      with Cons.prems(2) Ret r clean show ?thesis by simp
    qed
  qed
qed

lemma invoke_namespace_error:
  assumes "set fs \<subseteq> insert namespace_admissionFunc otherAdmissionFuncs"
    and "namespace_admissionFunc \<in> set fs"
    and "namespace_admissionFunc a c obs h = Ret (h1, d1, Some e1)"
    and "invokeAdmissionFuncs fs a c obs h d = Ret (h', d', e)"
  shows "e \<noteq> None"
  using assms
proof (induction fs arbitrary: d)
  case Nil
  then show ?case by simp
next
  case (Cons f fs)
  show ?case
  proof (cases "f = namespace_admissionFunc")
    case True
    with Cons.prems(3,4) show ?thesis by auto
  next
    case False
    with Cons.prems(1,2) have f: "f \<in> otherAdmissionFuncs" and mem: "namespace_admissionFunc \<in> set fs"
      and sub: "set fs \<subseteq> insert namespace_admissionFunc otherAdmissionFuncs" by auto
    show ?thesis
    proof (cases "f a c obs h")
      case Panic
      with Cons.prems(4) show ?thesis by simp
    next
      case (Ret r)
      obtain h2 fd err where r: "r = (h2, fd, err)" by (cases r) auto
      from other_clean [OF f, of a c obs h h2 fd err] Ret r have clean: "h2 = h" "\<not> fd" by simp_all
      show ?thesis
      proof (cases err)
        case None
        with Cons.prems(4) Ret r clean have "invokeAdmissionFuncs fs a c obs h d = Ret (h', d', e)" by simp
        from Cons.IH [OF sub mem Cons.prems(3) this] show ?thesis .
      next
        case (Some x)
        with Cons.prems(4) Ret r show ?thesis by auto
      qed
    qed
  qed
qed

lemma invoke_namespace_once:
  assumes "set fs \<subseteq> insert namespace_admissionFunc otherAdmissionFuncs"
    and "namespace_admissionFunc \<in> set fs" and "distinct fs"
    and "invokeAdmissionFuncs fs a c obs h d = Ret (h', d', None)"
  shows "\<exists>fd. namespace_admissionFunc a c obs h = Ret (h', fd, None) \<and> d' = (d \<or> fd)"
  using assms
proof (induction fs arbitrary: d)
  case Nil
  then show ?case by simp
next
  case (Cons f fs)
  show ?case
  proof (cases "f = namespace_admissionFunc")
    case True
    with Cons.prems(1,3) have rest: "set fs \<subseteq> otherAdmissionFuncs" by auto
    from Cons.prems(4) True obtain h1 fd where
      ns: "namespace_admissionFunc a c obs h = Ret (h1, fd, None)"
      and inv: "invokeAdmissionFuncs fs a c obs h1 (d \<or> fd) = Ret (h', d', None)"
      by (auto split: outcome.splits option.splits)
    from invoke_others [OF rest inv] ns show ?thesis by auto
  next
    case False
    with Cons.prems(1,2,3) have f: "f \<in> otherAdmissionFuncs" and mem: "namespace_admissionFunc \<in> set fs"
      and sub: "set fs \<subseteq> insert namespace_admissionFunc otherAdmissionFuncs" and dist: "distinct fs"
      by auto
    from Cons.prems(4) obtain h1 fd where
      fr: "f a c obs h = Ret (h1, fd, None)"
      and inv: "invokeAdmissionFuncs fs a c obs h1 (d \<or> fd) = Ret (h', d', None)"
      by (auto split: outcome.splits option.splits)
    from other_clean [OF f fr] inv have "invokeAdmissionFuncs fs a c obs h d = Ret (h', d', None)" by simp
    from Cons.IH [OF sub mem dist this] show ?thesis .
  qed
qed

text \<open>Once the pod count is written, the CPU and memory blocks return with \<open>dirty = true\<close> and leave the count in place.\<close>

lemma podCPUBlock_shape:
  assumes "allocatedMax (obsStatus observation) = Some m"
  shows "\<exists>h' e. podCPUBlock a input observation name cMax cpu podCPU h True = Ret (h', True, e)
           \<and> (\<forall>r. lookupRef h' r ''Pods'' = lookupRef h r ''Pods'')
           \<and> (\<forall>r. lookupRef h' r ''Memory'' = lookupRef h r ''Memory'')
           \<and> (cpu = None \<longrightarrow> e = None)"
  using assms
  by (auto simp: podCPUBlock_def makeObservation_cases lookupRef_other_key split: option.splits)

lemma podMemoryBlock_shape:
  assumes "allocatedMax (obsStatus observation) = Some m"
  shows "\<exists>h' e. podMemoryBlock a input observation name cMax mem podMem h True = Ret (h', True, e)
           \<and> (\<forall>r. lookupRef h' r ''Pods'' = lookupRef h r ''Pods'')
           \<and> (mem = None \<longrightarrow> e = None)"
  using assms
  by (auto simp: podMemoryBlock_def makeObservation_cases lookupRef_other_key split: option.splits)

lemma podUsageBlock_shape:
  assumes obs: "allocatedMax (obsStatus observation) = Some m"
    and pods: "GetKind a = ''pods''" and pod: "GetObject a = PodObject pod"
  shows "\<exists>h' e. podUsageBlock a input observation name aMax cMax h True = Ret (h', True, e)
           \<and> (\<forall>r. lookupRef h' r ''Pods'' = lookupRef h r ''Pods'')
           \<and> (lookupRef h aMax ''CPU'' = None \<and> lookupRef h aMax ''Memory'' = None \<longrightarrow> e = None)"
proof (cases "lookupRef h aMax ''CPU'' = None \<and> lookupRef h aMax ''Memory'' = None")
  case True
  with pods pod show ?thesis by (simp add: podUsageBlock_def)
next
  case False
  let ?cpu = "lookupRef h aMax ''CPU''" and ?mem = "lookupRef h aMax ''Memory''"
  let ?podCPU = "foldl (\<lambda>s c. wrap64 (s + MilliValue (CPU c))) 0 (Containers pod)"
  let ?podMem = "foldl (\<lambda>s c. wrap64 (s + Value (Memory c))) 0 (Containers pod)"
  from False pods pod have unfold:
    "podUsageBlock a input observation name aMax cMax h True =
       andThen (podCPUBlock a input observation name cMax ?cpu ?podCPU h True)
               (podMemoryBlock a input observation name cMax ?mem ?podMem)"
    by (auto simp: podUsageBlock_def Let_def)
  from podCPUBlock_shape [OF obs, of a input name cMax ?cpu ?podCPU h]
  obtain h1 e1 where first: "podCPUBlock a input observation name cMax ?cpu ?podCPU h True = Ret (h1, True, e1)"
    and keep1: "\<forall>r. lookupRef h1 r ''Pods'' = lookupRef h r ''Pods''" by blast
  show ?thesis
  proof (cases e1)
    case (Some err)
    with unfold first keep1 False show ?thesis by (simp add: andThen_def)
  next
    case None
    from podMemoryBlock_shape [OF obs, of a input name cMax ?mem ?podMem h1]
    obtain h2 e2 where second: "podMemoryBlock a input observation name cMax ?mem ?podMem h1 True = Ret (h2, True, e2)"
      and keep2: "\<forall>r. lookupRef h2 r ''Pods'' = lookupRef h1 r ''Pods''" by blast
    from unfold first None second have "podUsageBlock a input observation name aMax cMax h True = Ret (h2, True, e2)"
      by (simp add: andThen_def)
    with keep1 keep2 False show ?thesis by auto
  qed
qed

lemma count_rejects:
  assumes create: "GetOperation a = ''CREATE''" and pods: "GetKind a = ''pods''"
    and limit: "lookupRef h (allowedMax (ctlStatus input)) ''Pods'' = Some L"
    and used: "lookupRef h (allocatedMax (ctlStatus input)) ''Pods'' = Some A"
    and full: "Value L \<le> Value A"
  shows "namespace_admissionFunc a input observation h
         = Ret (h, False, Some (Forbidden ''pods'' (displayName a)
                  (LimitedTo L ''pods'' (Namespace (ctlMeta input)))))"
proof -
  from pods have kind: "map_of kindsToProcess (GetKind a) \<noteq> None"
    and name: "kindToMaxKindResourceName (GetKind a) = ''Pods''"
    by (simp_all add: kindsToProcess_def kindToMaxKindResourceName_def)
  from limit have "allowedMax (ctlStatus input) \<noteq> None"
    by (auto simp: lookupRef_def entries_def split: option.splits)
  with limit used full name pods have
    "kindCountBlock a input observation (displayName a) (allowedMax (ctlStatus input))
       (allocatedMax (ctlStatus input)) h False
     = Ret (h, False, Some (Forbidden ''pods'' (displayName a)
              (LimitedTo L ''pods'' (Namespace (ctlMeta input)))))"
    by (simp add: kindCountBlock_def Let_def)
  with allowedMax_lookup_group [OF limit] namespace_create [OF create kind]
  show ?thesis by (auto simp: andThen_def)
qed

lemma count_admits:
  assumes create: "GetOperation a = ''CREATE''" and pods: "GetKind a = ''pods''"
    and limit: "lookupRef h (allowedMax (ctlStatus input)) ''Pods'' = Some L"
    and used: "lookupRef h (allocatedMax (ctlStatus input)) ''Pods'' = Some A"
    and room: "Value A < Value L" and pod: "GetObject a = PodObject pod"
    and len: "length (items (Allocated (ctlStatus input))) \<le> length (items (Allowed (ctlStatus input)))"
  shows "\<exists>h' e. namespace_admissionFunc a input (newObservation input) h = Ret (h', True, e)
           \<and> lookupRef h' (allocatedMax (obsStatus (newObservation input))) ''Pods''
               = Some (NewQuantity (Value A + 1))
           \<and> (lookupRef h (allowedMax (ctlStatus input)) ''CPU'' = None
                \<and> lookupRef h (allowedMax (ctlStatus input)) ''Memory'' = None \<longrightarrow> e = None)"
proof -
  let ?obs = "newObservation input"
  let ?aMax = "allowedMax (ctlStatus input)" and ?cMax = "allocatedMax (ctlStatus input)"
  from pods have kind: "map_of kindsToProcess (GetKind a) \<noteq> None"
    and name: "kindToMaxKindResourceName (GetKind a) = ''Pods''"
    by (simp_all add: kindsToProcess_def kindToMaxKindResourceName_def)
  from limit have some: "?aMax \<noteq> None"
    by (auto simp: lookupRef_def entries_def split: option.splits)
  from used obtain m where m: "?cMax = Some m"
    by (auto simp: lookupRef_def entries_def split: option.splits)
  with snapshot_allocatedMax [OF len] have om: "allocatedMax (obsStatus ?obs) = Some m" by simp
  let ?h1 = "h(m := AList.update ''Pods'' (NewQuantity (Value A + 1)) (h m))"
  from limit used room some name om have count:
    "kindCountBlock a input ?obs (displayName a) ?aMax ?cMax h False = Ret (?h1, True, None)"
    by (simp add: kindCountBlock_def makeObservation_cases Value_succ Let_def)
  from podUsageBlock_shape [OF om pods pod, of input "displayName a" ?aMax ?cMax ?h1]
  obtain h' e where usage: "podUsageBlock a input ?obs (displayName a) ?aMax ?cMax ?h1 True = Ret (h', True, e)"
    and keep: "\<forall>r. lookupRef h' r ''Pods'' = lookupRef ?h1 r ''Pods''"
    and none: "lookupRef ?h1 ?aMax ''CPU'' = None \<and> lookupRef ?h1 ?aMax ''Memory'' = None \<longrightarrow> e = None"
    by blast
  from count usage allowedMax_lookup_group [OF limit] namespace_create [OF create kind]
  have "namespace_admissionFunc a input ?obs h = Ret (h', True, e)"
    by (auto simp: andThen_def)
  moreover from keep om have "lookupRef h' (allocatedMax (obsStatus ?obs)) ''Pods''
      = Some (NewQuantity (Value A + 1))"
    by (simp add: lookupRef_written)
  moreover from none have "lookupRef h ?aMax ''CPU'' = None \<and> lookupRef h ?aMax ''Memory'' = None \<longrightarrow> e = None"
    by (simp add: lookupRef_other_key)
  ultimately show ?thesis by blast
qed

text \<open>What the loop body of \<open>Admit\<close> returns after its functions have run.\<close>

lemma admitController_error:
  "invokeAdmissionFuncs fs a c (newObservation c) h False = Ret (h', d, Some e) \<Longrightarrow>
   admitController client fs a name c h = Ret (h', [], Some e)"
  by (simp add: admitController_def)

lemma admitController_dirty:
  "invokeAdmissionFuncs fs a c (newObservation c) h False = Ret (h', True, None) \<Longrightarrow>
   admitController client fs a name c h
     = Ret (h', [derefObservation h' (newObservation c)],
            enforcing client a name (Namespace (ctlMeta c)) (derefObservation h' (newObservation c)))"
  by (simp add: admitController_def enforcing_def newObservation_def Let_def split: option.splits)

text \<open>
  Claim C1, amended.  A pod is created against a controller whose status allows L pods
  in the namespace scope and has A allocated, and the registered functions are among the
  four built-in ones, the namespace function included.  When A is at least L, the
  namespace function returns a forbidden error without writing a map or reporting
  dirty, and \<open>Admit\<close> hands no observation for that controller to the store.  When A is
  below L, the object is a pod and the status has no more allocated than allowed groups,
  the namespace function sets the allocated pod count of the observation to A + 1 and
  returns \<open>dirty = true\<close>; its error is nil when the status allows neither CPU nor memory
  in the namespace scope (otherwise the checks of the pod's CPU and memory decide).  If
  then no registered function returns an error (each being registered once), \<open>Admit\<close>
  hands the observation to \<open>ResourceObservations.Create\<close>.
\<close>

theorem pod_count_admission:
  assumes create: "GetOperation a = ''CREATE''" and pods: "GetKind a = ''pods''"
    and limit: "lookupRef h (allowedMax (ctlStatus input)) ''Pods'' = Some L"
    and used: "lookupRef h (allocatedMax (ctlStatus input)) ''Pods'' = Some A"
    and funcs: "namespace_admissionFunc \<in> set fs"
      "set fs \<subseteq> insert namespace_admissionFunc otherAdmissionFuncs"
  shows "(Value L \<le> Value A \<longrightarrow>
            namespace_admissionFunc a input observation h
              = Ret (h, False, Some (Forbidden ''pods'' (displayName a)
                       (LimitedTo L ''pods'' (Namespace (ctlMeta input)))))
          \<and> (\<forall>h' posted err. admitController client fs a name input h = Ret (h', posted, err) \<longrightarrow>
                posted = [] \<and> err \<noteq> None))
       \<and> (Value A < Value L \<and> GetObject a = PodObject pod
            \<and> length (items (Allocated (ctlStatus input))) \<le> length (items (Allowed (ctlStatus input))) \<longrightarrow>
            (\<exists>h' e. namespace_admissionFunc a input (newObservation input) h = Ret (h', True, e)
               \<and> lookupRef h' (allocatedMax (obsStatus (newObservation input))) ''Pods''
                   = Some (NewQuantity (Value A + 1))
               \<and> (lookupRef h (allowedMax (ctlStatus input)) ''CPU'' = None
                    \<and> lookupRef h (allowedMax (ctlStatus input)) ''Memory'' = None \<longrightarrow> e = None)
               \<and> (distinct fs \<longrightarrow>
                    (\<forall>h'' d. invokeAdmissionFuncs fs a input (newObservation input) h False
                                = Ret (h'', d, None) \<longrightarrow>
                       h'' = h'
                       \<and> admitController client fs a name input h
                           = Ret (h', [derefObservation h' (newObservation input)],
                                  enforcing client a name (Namespace (ctlMeta input))
                                    (derefObservation h' (newObservation input)))))))"
proof (intro conjI impI)
  assume full: "Value L \<le> Value A"
  from count_rejects [OF create pods limit used full]
  show "namespace_admissionFunc a input observation h
          = Ret (h, False, Some (Forbidden ''pods'' (displayName a)
                   (LimitedTo L ''pods'' (Namespace (ctlMeta input)))))" .
  show "\<forall>h' posted err. admitController client fs a name input h = Ret (h', posted, err) \<longrightarrow>
          posted = [] \<and> err \<noteq> None"
  proof (intro allI impI)
    fix h' posted err
    assume adm: "admitController client fs a name input h = Ret (h', posted, err)"
    from adm obtain h1 d1 e1 where
      inv: "invokeAdmissionFuncs fs a input (newObservation input) h False = Ret (h1, d1, e1)"
      by (auto simp: admitController_def Let_def split: outcome.splits)
    from invoke_namespace_error [OF funcs(2) funcs(1)
           count_rejects [OF create pods limit used full, of "newObservation input"] inv]
    obtain e where "e1 = Some e" by auto
    with inv have "admitController client fs a name input h = Ret (h1, [], Some e)"
      by (simp add: admitController_error)
    with adm show "posted = [] \<and> err \<noteq> None" by auto
  qed
next
  assume hyp: "Value A < Value L \<and> GetObject a = PodObject pod
            \<and> length (items (Allocated (ctlStatus input))) \<le> length (items (Allowed (ctlStatus input)))"
  then have room: "Value A < Value L" and pod: "GetObject a = PodObject pod"
    and len: "length (items (Allocated (ctlStatus input))) \<le> length (items (Allowed (ctlStatus input)))"
    by simp_all
  from count_admits [OF create pods limit used room pod len]
  obtain h' e where ns: "namespace_admissionFunc a input (newObservation input) h = Ret (h', True, e)"
    and entry: "lookupRef h' (allocatedMax (obsStatus (newObservation input))) ''Pods''
                 = Some (NewQuantity (Value A + 1))"
    and none: "lookupRef h (allowedMax (ctlStatus input)) ''CPU'' = None
                \<and> lookupRef h (allowedMax (ctlStatus input)) ''Memory'' = None \<longrightarrow> e = None"
    by blast
  have admit: "h'' = h'
        \<and> admitController client fs a name input h
            = Ret (h', [derefObservation h' (newObservation input)],
                   enforcing client a name (Namespace (ctlMeta input))
                     (derefObservation h' (newObservation input)))"
    if dist: "distinct fs"
      and inv: "invokeAdmissionFuncs fs a input (newObservation input) h False = Ret (h'', d, None)"
    for h'' d
  proof -
    from invoke_namespace_once [OF funcs(2) funcs(1) dist inv] ns
    have "h'' = h'" and "d" by auto
    with inv admitController_dirty [of fs a input h h' client name] show ?thesis by simp
  qed
  from ns entry none admit
  show "\<exists>h' e. namespace_admissionFunc a input (newObservation input) h = Ret (h', True, e)
               \<and> lookupRef h' (allocatedMax (obsStatus (newObservation input))) ''Pods''
                   = Some (NewQuantity (Value A + 1))
               \<and> (lookupRef h (allowedMax (ctlStatus input)) ''CPU'' = None
                    \<and> lookupRef h (allowedMax (ctlStatus input)) ''Memory'' = None \<longrightarrow> e = None)
               \<and> (distinct fs \<longrightarrow>
                    (\<forall>h'' d. invokeAdmissionFuncs fs a input (newObservation input) h False
                                = Ret (h'', d, None) \<longrightarrow>
                       h'' = h'
                       \<and> admitController client fs a name input h
                           = Ret (h', [derefObservation h' (newObservation input)],
                                  enforcing client a name (Namespace (ctlMeta input))
                                    (derefObservation h' (newObservation input)))))"
    by blast
qed

text \<open>Instances: the same quota with 3 of 3 and with 2 of 3 pods allocated.\<close>

lemma builtin_funcs:
  "namespace_admissionFunc \<in> set builtinAdmissionFuncs"
  "set builtinAdmissionFuncs \<subseteq> insert namespace_admissionFunc otherAdmissionFuncs"
  by (simp_all add: builtinAdmissionFuncs_def otherAdmissionFuncs_def)

theorem pod_count_admission_witness:
  "namespace_admissionFunc createPod quotaController (newObservation quotaController) fullHeap
     = Ret (fullHeap, False, Some (Forbidden ''pods'' ''web'' (LimitedTo (NewQuantity 3) ''pods'' ''ns'')))
   \<and> admitController quotaClient builtinAdmissionFuncs createPod ''web'' quotaController fullHeap
     = Ret (fullHeap, [], Some (Forbidden ''pods'' ''web'' (LimitedTo (NewQuantity 3) ''pods'' ''ns'')))
   \<and> (\<exists>h'. namespace_admissionFunc createPod quotaController (newObservation quotaController) roomHeap
               = Ret (h', True, None)
            \<and> lookupRef h' (allocatedMax (obsStatus (newObservation quotaController))) ''Pods''
               = Some (NewQuantity 3))
   \<and> admitController quotaClient builtinAdmissionFuncs createPod ''web'' quotaController roomHeap
     = Ret (fullHeap, [postedQuota [(''Pods'', NewQuantity 3)] [(''Pods'', NewQuantity 3)]], None)"
proof -
  have create: "GetOperation createPod = ''CREATE''" and pods: "GetKind createPod = ''pods''"
    and pod: "GetObject createPod = PodObject (webPod 100)"
    and display: "displayName createPod = ''web''"
    and ns: "Namespace (ctlMeta quotaController) = ''ns''"
    and len: "length (items (Allocated (ctlStatus quotaController)))
              \<le> length (items (Allowed (ctlStatus quotaController)))"
    by (simp_all add: example_defs displayName_def)
  have full: "lookupRef fullHeap (allowedMax (ctlStatus quotaController)) ''Pods'' = Some (NewQuantity 3)"
    "lookupRef fullHeap (allocatedMax (ctlStatus quotaController)) ''Pods'' = Some (NewQuantity 3)"
    and room: "lookupRef roomHeap (allowedMax (ctlStatus quotaController)) ''Pods'' = Some (NewQuantity 3)"
    "lookupRef roomHeap (allocatedMax (ctlStatus quotaController)) ''Pods'' = Some (NewQuantity 2)"
    "lookupRef roomHeap (allowedMax (ctlStatus quotaController)) ''CPU'' = None"
    "lookupRef roomHeap (allowedMax (ctlStatus quotaController)) ''Memory'' = None"
    by (simp_all add: fullHeap_def roomHeap_def projection_defs example_defs)
  have vals: "Value (NewQuantity 3) \<le> Value (NewQuantity 3)" "Value (NewQuantity 2) < Value (NewQuantity 3)"
    "Value (NewQuantity 2) + 1 = 3"
    by (simp_all add: quantity_defs)
  have admitted:
    "admitController quotaClient builtinAdmissionFuncs createPod ''web'' quotaController fullHeap
       = Ret (fullHeap, [], Some (Forbidden ''pods'' ''web'' (LimitedTo (NewQuantity 3) ''pods'' ''ns'')))"
    "admitController quotaClient builtinAdmissionFuncs createPod ''web'' quotaController roomHeap
       = Ret (fullHeap, [postedQuota [(''Pods'', NewQuantity 3)] [(''Pods'', NewQuantity 3)]], None)"
    by (simp_all add: fullHeap_def roomHeap_def admit_defs namespace_defs other_defs projection_defs
          quantity_defs example_defs Let_def)
  from pod_count_admission [OF create pods full builtin_funcs,
         of "newObservation quotaController" quotaClient "''web''" "webPod 100"] vals(1) display ns
  have rejected:
    "namespace_admissionFunc createPod quotaController (newObservation quotaController) fullHeap
       = Ret (fullHeap, False, Some (Forbidden ''pods'' ''web'' (LimitedTo (NewQuantity 3) ''pods'' ''ns'')))"
    by simp
  from pod_count_admission [OF create pods room(1,2) builtin_funcs,
         of "newObservation quotaController" quotaClient "''web''" "webPod 100"]
       vals(2,3) pod len room(3,4)
  have "\<exists>h'. namespace_admissionFunc createPod quotaController (newObservation quotaController) roomHeap
               = Ret (h', True, None)
            \<and> lookupRef h' (allocatedMax (obsStatus (newObservation quotaController))) ''Pods''
               = Some (NewQuantity 3)"
    by auto
  with rejected admitted show ?thesis by blast
qed

text \<open>
  Claim C1 as stated fails: with 2 of 3 pods allocated, but 950 of 1000 milli-CPU
  allocated and a pod that requests 100 milli-CPU, the namespace function returns a
  forbidden error, and \<open>Admit\<close> posts nothing.
\<close>

theorem pod_count_admission_counterexample:
  "GetOperation createPod = ''CREATE'' \<and> GetKind createPod = ''pods''
   \<and> lookupRef (cpuHeap 2) (allowedMax (ctlStatus quotaController)) ''Pods'' = Some (NewQuantity 3)
   \<and> lookupRef (cpuHeap 2) (allocatedMax (ctlStatus quotaController)) ''Pods'' = Some (NewQuantity 2)
   \<and> Value (NewQuantity 2) < Value (NewQuantity 3)
   \<and> namespace_admissionFunc createPod quotaController (newObservation quotaController) (cpuHeap 2)
       = Ret (cpuHeap 3, True, Some (Forbidden ''pods'' ''web'' (LimitCPU (NewQuantity 1) ''ns'')))
   \<and> Admit quotaClient builtinAdmissionFuncs createPod (cpuHeap 2)
       = Ret (cpuHeap 3, [], Some (Forbidden ''pods'' ''web'' (LimitCPU (NewQuantity 1) ''ns'')))"
  by (simp add: cpuHeap_def admit_defs namespace_defs other_defs projection_defs quantity_defs
        example_defs Let_def)

text \<open>
  With more allocated than allowed groups the observation can lack the map of the
  namespace scope, and \<open>makeObservation\<close> then assigns into a nil map.
\<close>

lemma lopsided_status_panics:
  "lookupRef roomHeap (allowedMax (ctlStatus lopsidedController)) ''Pods'' = Some (NewQuantity 3)
   \<and> lookupRef roomHeap (allocatedMax (ctlStatus lopsidedController)) ''Pods'' = Some (NewQuantity 2)
   \<and> namespace_admissionFunc createPod lopsidedController (newObservation lopsidedController) roomHeap
       = Panic"
  by (simp add: roomHeap_def admit_defs namespace_defs projection_defs quantity_defs example_defs Let_def)

end
